theory Spec2Isabelle
  imports Main
begin

section \<open>Data model (package models)\<close>

text \<open>
  \<^verbatim>\<open>type ServiceStatus string\<close> with its five constants.
\<close>

datatype ServiceStatus =
  StatusUnknown | StatusAlive | StatusDead | StatusDegraded | StatusChecking

text \<open>
  \<^verbatim>\<open>type JSON map[string]interface{}\<close>: the values \<^verbatim>\<open>encoding/json\<close> stores in an
  \<^verbatim>\<open>interface{}\<close>. The monitoring code only ever asks whether a value is a string, so a
  number keeps an integer payload here. The map itself is an association list read with
  \<open>map_of\<close>; \<^verbatim>\<open>len(m) > 0\<close> is \<open>m \<noteq> []\<close>.
\<close>

datatype jvalue =
  JNull | JBool bool | JNumber int | JString string
  | JArray "jvalue list" | JObject "(string \<times> jvalue) list"

type_synonym JSON = "(string \<times> jvalue) list"

text \<open>
  \<^verbatim>\<open>models.Service\<close>, with the fields the monitoring package reads. Go's \<^verbatim>\<open>int\<close> fields are
  \<open>int\<close>; an instant (\<^verbatim>\<open>time.Time\<close>) is a number of nanoseconds on one time line, and the
  nullable \<^verbatim>\<open>*time.Time\<close> is an option.
\<close>

record Service =
  ID :: int
  Host :: string
  Port :: int
  HealthcheckMethod :: string
  HealthcheckURL :: string
  PollingInterval :: int
  RequestTimeout :: int
  ExpectedStatus :: int
  StatusMapping :: JSON
  HTTPMethod :: string
  Headers :: JSON
  Body :: string
  SSLVerify :: bool
  FollowRedirects :: bool
  TCPSendData :: string
  TCPExpectData :: string
  UDPSendData :: string
  UDPExpectData :: string
  ICMPPacketCount :: int
  DNSQueryType :: string
  DNSExpectedResult :: string
  KafkaTopic :: string
  KafkaClientID :: string
  FrontendHostURL :: string
  CurrentStatus :: ServiceStatus
  LastChecked :: "int option"

text \<open>\<^verbatim>\<open>models.HealthcheckResult\<close> (the \<^verbatim>\<open>ID\<close> is assigned by the database).\<close>

record HealthcheckResult =
  ServiceID :: int
  Status :: ServiceStatus
  StatusCode :: int
  ResponseTime :: int
  Error :: string
  CheckedAt :: int

text \<open>\<^verbatim>\<open>models.StatusUpdate\<close>.\<close>

record StatusUpdate =
  UServiceID :: int
  UStatus :: ServiceStatus
  UTimestamp :: int

section \<open>Go library functions used by the scheduler\<close>

text \<open>\<^verbatim>\<open>fmt.Sprintf("%d", n)\<close> and \<^verbatim>\<open>strconv.Itoa(n)\<close>: decimal digits, a minus sign first.\<close>

definition digit_char :: "nat \<Rightarrow> char" where
  "digit_char d = ''0123456789'' ! d"

function nat_dec :: "nat \<Rightarrow> string" where
  "nat_dec n = (if n < 10 then [digit_char n] else nat_dec (n div 10) @ [digit_char (n mod 10)])"
  by pat_completeness auto
termination
  by (relation "measure id") auto

definition fmt_d :: "int \<Rightarrow> string" where
  "fmt_d i = (if i < 0 then CHR ''-'' # nat_dec (nat (- i)) else nat_dec (nat i))"

text \<open>\<^verbatim>\<open>strings.HasPrefix\<close> and \<^verbatim>\<open>strings.Contains\<close>.\<close>

definition has_prefix :: "string \<Rightarrow> string \<Rightarrow> bool" where
  "has_prefix s p = (take (length p) s = p)"

fun contains :: "string \<Rightarrow> string \<Rightarrow> bool" where
  "contains [] sub = (sub = [])"
| "contains (c # cs) sub = (has_prefix (c # cs) sub \<or> contains cs sub)"

text \<open>
  \<^verbatim>\<open>time.Duration\<close> is a signed 64-bit count of nanoseconds. \<open>wrap64\<close> is the value an
  overflowing \<^verbatim>\<open>int64\<close> multiplication keeps; \<open>sat64\<close> is the clamping \<^verbatim>\<open>Time.Sub\<close> applies.
  Go's integer division truncates towards zero.
\<close>

definition wrap64 :: "int \<Rightarrow> int" where
  "wrap64 x = (x + 2 ^ 63) mod 2 ^ 64 - 2 ^ 63"

definition sat64 :: "int \<Rightarrow> int" where
  "sat64 x = (if x < - (2 ^ 63) then - (2 ^ 63) else if 2 ^ 63 - 1 < x then 2 ^ 63 - 1 else x)"

definition tdiv :: "int \<Rightarrow> int \<Rightarrow> int" where
  "tdiv a b = sgn a * sgn b * (\<bar>a\<bar> div \<bar>b\<bar>)"

text \<open>\<^verbatim>\<open>time.Duration(n) * time.Second\<close>.\<close>

definition seconds :: "int \<Rightarrow> int" where
  "seconds n = wrap64 (n * 1000000000)"

text \<open>\<^verbatim>\<open>time.Since(t)\<close> read at the instant \<open>now\<close>, and \<^verbatim>\<open>d.Milliseconds()\<close>.\<close>

definition since :: "int \<Rightarrow> int \<Rightarrow> int" where
  "since now t = sat64 (now - t)"

definition milliseconds :: "int \<Rightarrow> int" where
  "milliseconds d = tdiv d 1000000"

text \<open>
  Go's remainder \<^verbatim>\<open>a % b\<close>, which has the sign of \<open>a\<close>.
\<close>

definition trem :: "int \<Rightarrow> int \<Rightarrow> int" where
  "trem a b = a - tdiv a b * b"

text \<open>
  Binary64 arithmetic, as far as \<^verbatim>\<open>Duration.Seconds\<close> needs it. A \<^verbatim>\<open>float64\<close> is a pair
  \<open>(m, e)\<close> that stands for \<open>m * 2 ^ e\<close>. \<open>nearest64 a b\<close> is the \<^verbatim>\<open>float64\<close> nearest
  to the quotient \<open>a / b\<close> (for \<open>0 < b\<close>), ties to even: \<open>floor_log2\<close> finds \<open>l\<close> with
  \<open>2 ^ l \<le> a / b < 2 ^ (l + 1)\<close> from the bit lengths, and the quotient is rounded to
  a multiple of \<open>2 ^ (l - 52)\<close>, which keeps 53 significant bits. The exponent is not
  bounded: the values met here lie between \<open>2 ^ - 30\<close> and \<open>2 ^ 34\<close> in magnitude, far
  from overflow and from subnormal numbers.
\<close>

function bit_length :: "int \<Rightarrow> nat" where
  "bit_length n = (if n \<le> 0 then 0 else Suc (bit_length (n div 2)))"
  by pat_completeness auto
termination
  by (relation "measure nat") auto

definition round_even :: "int \<Rightarrow> int \<Rightarrow> int" where
  "round_even a b =
     (if 2 * (a mod b) < b then a div b
      else if b < 2 * (a mod b) then a div b + 1
      else if even (a div b) then a div b else a div b + 1)"

type_synonym float64 = "int \<times> int"

definition floor_log2 :: "int \<Rightarrow> int \<Rightarrow> int" where
  "floor_log2 a b =
     (let k = int (bit_length a) - int (bit_length b)
      in if b * 2 ^ nat k \<le> a * 2 ^ nat (- k) then k else k - 1)"

definition round_at :: "int \<Rightarrow> int \<Rightarrow> int \<Rightarrow> float64" where
  "round_at a b e = (round_even (a * 2 ^ nat (- e)) (b * 2 ^ nat e), e)"

definition nearest64 :: "int \<Rightarrow> int \<Rightarrow> float64" where
  "nearest64 a b = (if a = 0 then (0, 0) else round_at a b (floor_log2 \<bar>a\<bar> b - 52))"

text \<open>
  The conversion \<^verbatim>\<open>float64(i)\<close>, the quotient and the sum of two \<^verbatim>\<open>float64\<close> (each the exact
  result rounded once, the divisor positive), and the conversion \<^verbatim>\<open>int(x)\<close>, which drops
  the fraction.
\<close>

definition float_of_int :: "int \<Rightarrow> float64" where
  "float_of_int i = nearest64 i 1"

definition float_div :: "float64 \<Rightarrow> float64 \<Rightarrow> float64" where
  "float_div x y =
     nearest64 (fst x * 2 ^ nat (snd x - snd y)) (fst y * 2 ^ nat (snd y - snd x))"

definition float_add :: "float64 \<Rightarrow> float64 \<Rightarrow> float64" where
  "float_add x y =
     nearest64
       ((fst x * 2 ^ nat (snd x - snd y) + fst y * 2 ^ nat (snd y - snd x)) *
          2 ^ nat (min (snd x) (snd y)))
       (2 ^ nat (- min (snd x) (snd y)))"

definition float_trunc :: "float64 \<Rightarrow> int" where
  "float_trunc x = tdiv (fst x * 2 ^ nat (snd x)) (2 ^ nat (- snd x))"

text \<open>
  \<^verbatim>\<open>int(d.Seconds())\<close>, where \<^verbatim>\<open>Seconds\<close> is
  \<^verbatim>\<open>sec := d / Second; nsec := d % Second; return float64(sec) + float64(nsec)/1e9\<close>.
\<close>

definition seconds_int :: "int \<Rightarrow> int" where
  "seconds_int d =
     float_trunc
       (float_add (float_of_int (tdiv d 1000000000))
          (float_div (float_of_int (trem d 1000000000)) (float_of_int 1000000000)))"

section \<open>Status classifier\<close>

text \<open>\<^verbatim>\<open>HealthcheckScheduler.determineStatus\<close>.\<close>

definition fallbackStatus :: "int \<Rightarrow> Service \<Rightarrow> ServiceStatus" where
  "fallbackStatus statusCode service =
     (if statusCode = ExpectedStatus service then StatusAlive
      else if statusCode = 429 \<or> statusCode = 503 then StatusDegraded
      else StatusDead)"

definition determineStatus :: "int \<Rightarrow> Service \<Rightarrow> ServiceStatus" where
  "determineStatus statusCode service =
     (if StatusMapping service \<noteq> [] then
        (case map_of (StatusMapping service) (fmt_d statusCode) of
           Some (JString status) \<Rightarrow>
             (if status = ''alive'' then StatusAlive
              else if status = ''degraded'' then StatusDegraded
              else if status = ''dead'' then StatusDead
              else fallbackStatus statusCode service)
         | _ \<Rightarrow> fallbackStatus statusCode service)
      else fallbackStatus statusCode service)"

text \<open>
  The tag a status mapping gives a response code, in the words of the specification: the
  entry under the string form of the code, when its value is one of the three tags.
\<close>

definition mappedTag :: "JSON \<Rightarrow> int \<Rightarrow> ServiceStatus option" where
  "mappedTag m c =
     (if map_of m (fmt_d c) = Some (JString ''alive'') then Some StatusAlive
      else if map_of m (fmt_d c) = Some (JString ''degraded'') then Some StatusDegraded
      else if map_of m (fmt_d c) = Some (JString ''dead'') then Some StatusDead
      else None)"

section \<open>Scheduler: shouldCheck\<close>

text \<open>\<^verbatim>\<open>HealthcheckScheduler.shouldCheck\<close>; \<open>now\<close> is the clock reading of \<^verbatim>\<open>time.Since\<close>.\<close>

definition shouldCheck :: "int \<Rightarrow> Service \<Rightarrow> bool" where
  "shouldCheck now service =
     (if Host service = [] then False
      else if (HealthcheckMethod service = ''HTTP'' \<or> HealthcheckMethod service = ''HTTPS'' \<or>
               HealthcheckMethod service = ''WEBSOCKET'' \<or> HealthcheckMethod service = ''WSS'' \<or>
               HealthcheckMethod service = ''GRPC'') \<and> HealthcheckURL service = [] then False
      else (case LastChecked service of
              None \<Rightarrow> True
            | Some t \<Rightarrow> since now t \<ge> seconds (PollingInterval service)))"

section \<open>The outside world of a probe\<close>

text \<open>
  Every operation a probe performs on the network, on a subprocess or on a driver is an
  \<open>io_event\<close>; what the operation answers is read from the environment \<open>net\<close>, one
  oracle per Go result type (\<open>Some e\<close> and \<open>Inl e\<close> are a non-nil \<^verbatim>\<open>error\<close> with text
  \<open>e\<close>). A probe returns, besides its Go results, the events it performed, in order.
\<close>

record http_request =
  req_method :: string
  req_url :: string
  req_body :: "string option"
  req_headers :: "(string \<times> string) list"
  req_timeout :: int
  req_skip_verify :: bool
  req_follow_redirects :: bool

datatype io_event =
    Dial string string int
  | SetReadDeadline int
  | ConnWrite string
  | ConnRead
  | ReadLine nat
  | NewRequest string string "string option"
  | ClientDo http_request
  | ExecCommand "string list"
  | LookupIPAddr string int
  | LookupCNAME string int
  | LookupMX string int
  | LookupNS string int
  | LookupTXT string int
  | WsDial string int bool
  | WsWritePing
  | WsReadMessage
  | GrpcDial string int
  | GrpcCheck string int
  | SmtpDial string
  | SmtpNoop
  | SshDial string int
  | SshNewSession
  | SshOutput string
  | RedisPing string int
  | SqlOpen string string
  | SqlPing int
  | SqlQueryRow string
  | MongoConnect string int
  | MongoPing
  | KafkaNewClient string string int
  | KafkaClosed
  | KafkaController
  | KafkaBrokers
  | KafkaTopics
  | KafkaPartitions string

record net =
  io_err :: "io_event \<Rightarrow> string option"
  io_text :: "io_event \<Rightarrow> string + string"
  io_list :: "io_event \<Rightarrow> string + string list"
  io_code :: "io_event \<Rightarrow> string + int"
  io_flag :: "io_event \<Rightarrow> bool"
  io_size :: "io_event \<Rightarrow> nat"
  lookup_env :: "string \<Rightarrow> string option"
  probe_start :: int
  probe_end :: int

text \<open>
  \<open>probe_start\<close> is the reading of \<^verbatim>\<open>start := time.Now()\<close> at the head of a probe function,
  \<open>probe_end\<close> the instant its last operation has answered, which the final
  \<^verbatim>\<open>time.Since(start)\<close> of a successful probe reads.
\<close>

record probe_ret =
  p_status :: ServiceStatus
  p_err :: "string option"
  p_result :: HealthcheckResult
  p_trace :: "io_event list"

definition ret :: "ServiceStatus \<Rightarrow> string option \<Rightarrow> HealthcheckResult \<Rightarrow> io_event list \<Rightarrow> probe_ret" where
  "ret s e r tr = \<lparr>p_status = s, p_err = e, p_result = r, p_trace = tr\<rparr>"

text \<open>The common last two lines of a probe: record the response time, return alive.\<close>

definition alive :: "net \<Rightarrow> HealthcheckResult \<Rightarrow> io_event list \<Rightarrow> probe_ret" where
  "alive n r tr =
     ret StatusAlive None
       (r\<lparr>ResponseTime := milliseconds (since (probe_end n) (probe_start n))\<rparr>) tr"

text \<open>\<^verbatim>\<open>fmt.Errorf("expected response '%s' not found in '%s'", expect, response)\<close>.\<close>

definition expectedResponseError :: "string \<Rightarrow> string \<Rightarrow> string" where
  "expectedResponseError expect response =
     ''expected response '' @ [CHR 0x27] @ expect @ [CHR 0x27] @
     '' not found in '' @ [CHR 0x27] @ response @ [CHR 0x27]"

section \<open>Probe library\<close>

fun string_entries :: "JSON \<Rightarrow> (string \<times> string) list" where
  "string_entries [] = []"
| "string_entries ((k, JString v) # rest) = (k, v) # string_entries rest"
| "string_entries (_ # rest) = string_entries rest"

text \<open>\<^verbatim>\<open>HealthcheckScheduler.performHTTPHealthcheck\<close>.\<close>

definition performHTTPHealthcheck :: "net \<Rightarrow> Service \<Rightarrow> HealthcheckResult \<Rightarrow> probe_ret" where
  "performHTTPHealthcheck n service result =
     (let protocol = (if HealthcheckMethod service = ''HTTPS'' then ''https'' else ''http'');
          url = protocol @ ''://'' @ Host service @ '':'' @ fmt_d (Port service) @ HealthcheckURL service;
          body = (if Body service \<noteq> [] \<and> (HTTPMethod service = ''POST'' \<or> HTTPMethod service = ''PUT'')
                  then Some (Body service) else None);
          e1 = NewRequest (HTTPMethod service) url body
      in case io_err n e1 of
           Some err \<Rightarrow> ret StatusDead (Some err) result [e1]
         | None \<Rightarrow>
             (let e2 = ClientDo \<lparr>req_method = HTTPMethod service, req_url = url, req_body = body,
                         req_headers = string_entries (Headers service),
                         req_timeout = seconds (RequestTimeout service),
                         req_skip_verify = (HealthcheckMethod service = ''HTTPS'' \<and> \<not> SSLVerify service),
                         req_follow_redirects = FollowRedirects service\<rparr>
              in case io_code n e2 of
                   Inl err \<Rightarrow> ret StatusDead (Some err) result [e1, e2]
                 | Inr code \<Rightarrow>
                     ret (determineStatus code service) None
                       (result\<lparr>StatusCode := code,
                               ResponseTime := milliseconds (since (probe_end n) (probe_start n))\<rparr>)
                       [e1, e2]))"

text \<open>\<^verbatim>\<open>HealthcheckScheduler.performTCPHealthcheck\<close>.\<close>

definition performTCPHealthcheck :: "net \<Rightarrow> Service \<Rightarrow> HealthcheckResult \<Rightarrow> probe_ret" where
  "performTCPHealthcheck n service result =
     (let address = Host service @ '':'' @ fmt_d (Port service);
          timeout = seconds (RequestTimeout service);
          e1 = Dial ''tcp'' address timeout;
          e2 = ConnWrite (TCPSendData service)
      in case io_err n e1 of
           Some err \<Rightarrow> ret StatusDead (Some err) result [e1]
         | None \<Rightarrow>
             if TCPSendData service \<noteq> [] then
               (case io_err n e2 of
                  Some err \<Rightarrow> ret StatusDead (Some err) result [e1, e2]
                | None \<Rightarrow>
                    if TCPExpectData service \<noteq> [] then
                      (case io_text n ConnRead of
                         Inl err \<Rightarrow> ret StatusDead (Some err) result [e1, e2, ConnRead]
                       | Inr response \<Rightarrow>
                           if \<not> contains response (TCPExpectData service) then
                             ret StatusDead
                               (Some (expectedResponseError (TCPExpectData service) response))
                               result [e1, e2, ConnRead]
                           else alive n result [e1, e2, ConnRead])
                    else alive n result [e1, e2])
             else alive n result [e1])"

text \<open>\<^verbatim>\<open>HealthcheckScheduler.performUDPHealthcheck\<close>.\<close>

definition performUDPHealthcheck :: "net \<Rightarrow> Service \<Rightarrow> HealthcheckResult \<Rightarrow> probe_ret" where
  "performUDPHealthcheck n service result =
     (let address = Host service @ '':'' @ fmt_d (Port service);
          timeout = seconds (RequestTimeout service);
          e1 = Dial ''udp'' address timeout;
          e2 = SetReadDeadline timeout;
          e3 = ConnWrite (UDPSendData service)
      in case io_err n e1 of
           Some err \<Rightarrow> ret StatusDead (Some err) result [e1]
         | None \<Rightarrow>
             (case io_err n e2 of
                Some err \<Rightarrow> ret StatusDead (Some err) result [e1, e2]
              | None \<Rightarrow>
                  if UDPSendData service = [] then
                    ret StatusDead (Some ''UDP send data is required'') result [e1, e2]
                  else
                    (case io_err n e3 of
                       Some err \<Rightarrow> ret StatusDead (Some err) result [e1, e2, e3]
                     | None \<Rightarrow>
                         if UDPExpectData service \<noteq> [] then
                           (case io_text n ConnRead of
                              Inl err \<Rightarrow> ret StatusDead (Some err) result [e1, e2, e3, ConnRead]
                            | Inr response \<Rightarrow>
                                if \<not> contains response (UDPExpectData service) then
                                  ret StatusDead
                                    (Some (expectedResponseError (UDPExpectData service) response))
                                    result [e1, e2, e3, ConnRead]
                                else alive n result [e1, e2, e3, ConnRead])
                         else alive n result [e1, e2, e3])))"

text \<open>\<^verbatim>\<open>HealthcheckScheduler.performICMPHealthcheck\<close>.\<close>

definition icmpPacketCount :: "Service \<Rightarrow> int" where
  "icmpPacketCount service =
     (if ICMPPacketCount service \<le> 0 then 3 else ICMPPacketCount service)"

definition pingCommand :: "Service \<Rightarrow> string list" where
  "pingCommand service =
     [''ping'', ''-c'', fmt_d (icmpPacketCount service),
      ''-W'', fmt_d (seconds_int (seconds (RequestTimeout service))), Host service]"

definition performICMPHealthcheck :: "net \<Rightarrow> Service \<Rightarrow> HealthcheckResult \<Rightarrow> probe_ret" where
  "performICMPHealthcheck n service result =
     (let cmd = ExecCommand (pingCommand service)
      in case io_text n cmd of
           Inl err \<Rightarrow> ret StatusDead (Some err) result [cmd]
         | Inr outputStr \<Rightarrow>
             if contains outputStr ''0 received'' then
               ret StatusDead (Some (''ping failed: '' @ outputStr)) result [cmd]
             else alive n result [cmd])"

text \<open>
  \<^verbatim>\<open>HealthcheckScheduler.performDNSHealthcheck\<close>. A lookup answers the records in string form
  (\<^verbatim>\<open>ip.IP.String()\<close>, \<^verbatim>\<open>mx.Host\<close>, \<^verbatim>\<open>ns.Host\<close>, the text of a TXT record); the \<^verbatim>\<open>found\<close> loops
  are \<open>list_ex\<close>.
\<close>

definition performDNSHealthcheck :: "net \<Rightarrow> Service \<Rightarrow> HealthcheckResult \<Rightarrow> probe_ret" where
  "performDNSHealthcheck n service result =
     (let timeout = seconds (RequestTimeout service);
          expected = DNSExpectedResult service
      in if DNSQueryType service = ''A'' then
           (let ev = LookupIPAddr (Host service) timeout
            in case io_list n ev of
                 Inl err \<Rightarrow> ret StatusDead (Some err) result [ev]
               | Inr ips \<Rightarrow>
                   if expected \<noteq> [] \<and> \<not> list_ex (\<lambda>ip. ip = expected) ips then
                     ret StatusDead
                       (Some (''expected IP '' @ [CHR 0x27] @ expected @ [CHR 0x27] @
                              '' not found in DNS response'')) result [ev]
                   else alive n result [ev])
         else if DNSQueryType service = ''CNAME'' then
           (let ev = LookupCNAME (Host service) timeout
            in case io_text n ev of
                 Inl err \<Rightarrow> ret StatusDead (Some err) result [ev]
               | Inr cname \<Rightarrow>
                   if expected \<noteq> [] \<and> cname \<noteq> expected then
                     ret StatusDead
                       (Some (''expected CNAME '' @ [CHR 0x27] @ expected @ [CHR 0x27] @
                              '' but got '' @ [CHR 0x27] @ cname @ [CHR 0x27])) result [ev]
                   else alive n result [ev])
         else if DNSQueryType service = ''MX'' then
           (let ev = LookupMX (Host service) timeout
            in case io_list n ev of
                 Inl err \<Rightarrow> ret StatusDead (Some err) result [ev]
               | Inr mxRecords \<Rightarrow>
                   if expected \<noteq> [] \<and> \<not> list_ex (\<lambda>mx. mx = expected) mxRecords then
                     ret StatusDead
                       (Some (''expected MX record '' @ [CHR 0x27] @ expected @ [CHR 0x27] @
                              '' not found'')) result [ev]
                   else alive n result [ev])
         else if DNSQueryType service = ''NS'' then
           (let ev = LookupNS (Host service) timeout
            in case io_list n ev of
                 Inl err \<Rightarrow> ret StatusDead (Some err) result [ev]
               | Inr nsRecords \<Rightarrow>
                   if expected \<noteq> [] \<and> \<not> list_ex (\<lambda>ns. ns = expected) nsRecords then
                     ret StatusDead
                       (Some (''expected NS record '' @ [CHR 0x27] @ expected @ [CHR 0x27] @
                              '' not found'')) result [ev]
                   else alive n result [ev])
         else if DNSQueryType service = ''TXT'' then
           (let ev = LookupTXT (Host service) timeout
            in case io_list n ev of
                 Inl err \<Rightarrow> ret StatusDead (Some err) result [ev]
               | Inr txtRecords \<Rightarrow>
                   if expected \<noteq> [] \<and> \<not> list_ex (\<lambda>txt. contains txt expected) txtRecords then
                     ret StatusDead
                       (Some (''expected TXT record containing '' @ [CHR 0x27] @ expected @ [CHR 0x27] @
                              '' not found'')) result [ev]
                   else alive n result [ev])
         else
           ret StatusDead (Some (''unsupported DNS query type: '' @ DNSQueryType service)) result [])"

text \<open>\<^verbatim>\<open>HealthcheckScheduler.performWebSocketHealthcheck\<close>.\<close>

definition performWebSocketHealthcheck :: "net \<Rightarrow> Service \<Rightarrow> HealthcheckResult \<Rightarrow> probe_ret" where
  "performWebSocketHealthcheck n service result =
     (let protocol = (if HealthcheckMethod service = ''WSS'' then ''wss'' else ''ws'');
          url = protocol @ ''://'' @ Host service @ '':'' @ fmt_d (Port service) @ HealthcheckURL service;
          timeout = seconds (RequestTimeout service);
          e1 = WsDial url timeout (protocol = ''wss'' \<and> \<not> SSLVerify service)
      in case io_err n e1 of
           Some err \<Rightarrow> ret StatusDead (Some err) result [e1]
         | None \<Rightarrow>
             (case io_err n WsWritePing of
                Some err \<Rightarrow> ret StatusDead (Some err) result [e1, WsWritePing]
              | None \<Rightarrow>
                  (case io_err n WsReadMessage of
                     Some err \<Rightarrow> ret StatusDead (Some err) result [e1, WsWritePing, WsReadMessage]
                   | None \<Rightarrow> alive n result [e1, WsWritePing, WsReadMessage])))"

text \<open>\<^verbatim>\<open>HealthcheckScheduler.performGRPCHealthcheck\<close>; the check answers the name of the status.\<close>

definition performGRPCHealthcheck :: "net \<Rightarrow> Service \<Rightarrow> HealthcheckResult \<Rightarrow> probe_ret" where
  "performGRPCHealthcheck n service result =
     (let timeout = seconds (RequestTimeout service);
          address = Host service @ '':'' @ fmt_d (Port service);
          e1 = GrpcDial address timeout;
          e2 = GrpcCheck (HealthcheckURL service) timeout
      in case io_err n e1 of
           Some err \<Rightarrow> ret StatusDead (Some err) result [e1]
         | None \<Rightarrow>
             (case io_text n e2 of
                Inl err \<Rightarrow> ret StatusDead (Some err) result [e1, e2]
              | Inr status \<Rightarrow>
                  if status \<noteq> ''SERVING'' then
                    ret StatusDegraded (Some (''gRPC service status: '' @ status)) result [e1, e2]
                  else alive n result [e1, e2]))"

text \<open>\<^verbatim>\<open>HealthcheckScheduler.performSMTPHealthcheck\<close>.\<close>

definition performSMTPHealthcheck :: "net \<Rightarrow> Service \<Rightarrow> HealthcheckResult \<Rightarrow> probe_ret" where
  "performSMTPHealthcheck n service result =
     (let address = Host service @ '':'' @ fmt_d (Port service);
          e1 = SmtpDial address
      in case io_err n e1 of
           Some err \<Rightarrow> ret StatusDead (Some err) result [e1]
         | None \<Rightarrow>
             (case io_err n SmtpNoop of
                Some err \<Rightarrow> ret StatusDead (Some err) result [e1, SmtpNoop]
              | None \<Rightarrow> alive n result [e1, SmtpNoop]))"

text \<open>\<^verbatim>\<open>HealthcheckScheduler.performFTPHealthcheck\<close>.\<close>

definition performFTPHealthcheck :: "net \<Rightarrow> Service \<Rightarrow> HealthcheckResult \<Rightarrow> probe_ret" where
  "performFTPHealthcheck n service result =
     (let timeout = seconds (RequestTimeout service);
          address = Host service @ '':'' @ fmt_d (Port service);
          e1 = Dial ''tcp'' address timeout;
          e2 = SetReadDeadline timeout;
          e3 = ReadLine 0;
          e4 = ConnWrite (''QUIT'' @ [CHR 0x0D, CHR 0x0A]);
          e5 = ReadLine 1
      in case io_err n e1 of
           Some err \<Rightarrow> ret StatusDead (Some err) result [e1]
         | None \<Rightarrow>
         (case io_err n e2 of
           Some err \<Rightarrow> ret StatusDead (Some err) result [e1, e2]
         | None \<Rightarrow>
         (case io_text n e3 of
           Inl err \<Rightarrow> ret StatusDead (Some err) result [e1, e2, e3]
         | Inr _ \<Rightarrow>
         (case io_err n e4 of
           Some err \<Rightarrow> ret StatusDead (Some err) result [e1, e2, e3, e4]
         | None \<Rightarrow>
         (case io_text n e5 of
           Inl err \<Rightarrow> ret StatusDead (Some err) result [e1, e2, e3, e4, e5]
         | Inr _ \<Rightarrow> alive n result [e1, e2, e3, e4, e5])))))"

text \<open>\<^verbatim>\<open>HealthcheckScheduler.performSSHHealthcheck\<close>.\<close>

definition performSSHHealthcheck :: "net \<Rightarrow> Service \<Rightarrow> HealthcheckResult \<Rightarrow> probe_ret" where
  "performSSHHealthcheck n service result =
     (let timeout = seconds (RequestTimeout service);
          address = Host service @ '':'' @ fmt_d (Port service);
          e1 = SshDial address timeout;
          e3 = SshOutput (''echo '' @ [CHR 0x27] @ ''healthcheck'' @ [CHR 0x27])
      in case io_err n e1 of
           Some err \<Rightarrow> ret StatusDead (Some err) result [e1]
         | None \<Rightarrow>
         (case io_err n SshNewSession of
           Some err \<Rightarrow> ret StatusDead (Some err) result [e1, SshNewSession]
         | None \<Rightarrow>
         (case io_text n e3 of
           Inl err \<Rightarrow> ret StatusDead (Some err) result [e1, SshNewSession, e3]
         | Inr output \<Rightarrow>
             if output \<noteq> ''healthcheck'' @ [CHR 0x0A] then
               ret StatusDead (Some (''unexpected SSH output: '' @ output)) result [e1, SshNewSession, e3]
             else alive n result [e1, SshNewSession, e3])))"

text \<open>\<^verbatim>\<open>HealthcheckScheduler.performRedisHealthcheck\<close>.\<close>

definition performRedisHealthcheck :: "net \<Rightarrow> Service \<Rightarrow> HealthcheckResult \<Rightarrow> probe_ret" where
  "performRedisHealthcheck n service result =
     (let timeout = seconds (RequestTimeout service);
          address = Host service @ '':'' @ fmt_d (Port service);
          e1 = RedisPing address timeout
      in case io_err n e1 of
           Some err \<Rightarrow> ret StatusDead (Some err) result [e1]
         | None \<Rightarrow> alive n result [e1])"

text \<open>\<^verbatim>\<open>HealthcheckScheduler.performMySQLHealthcheck\<close>.\<close>

definition performMySQLHealthcheck :: "net \<Rightarrow> Service \<Rightarrow> HealthcheckResult \<Rightarrow> probe_ret" where
  "performMySQLHealthcheck n service result =
     (let timeout = seconds (RequestTimeout service);
          dsn = ''healthcheck'' @ '':'' @ ''healthcheck'' @ ''@tcp('' @ Host service @ '':'' @
                fmt_d (Port service) @ '')/'';
          e1 = SqlOpen ''mysql'' dsn;
          e2 = SqlPing timeout
      in case io_err n e1 of
           Some err \<Rightarrow> ret StatusDead (Some err) result [e1]
         | None \<Rightarrow>
             (case io_err n e2 of
                Some err \<Rightarrow> ret StatusDead (Some err) result [e1, e2]
              | None \<Rightarrow> alive n result [e1, e2]))"

text \<open>\<^verbatim>\<open>getEnv\<close> and \<^verbatim>\<open>HealthcheckScheduler.performPostgresHealthcheck\<close>.\<close>

definition getEnv :: "net \<Rightarrow> string \<Rightarrow> string \<Rightarrow> string" where
  "getEnv n key defaultValue = (case lookup_env n key of Some v \<Rightarrow> v | None \<Rightarrow> defaultValue)"

definition postgresHost :: "Service \<Rightarrow> string" where
  "postgresHost service =
     (if FrontendHostURL service \<noteq> [] then
        (let u0 = FrontendHostURL service;
             u1 = (if has_prefix u0 ''http://'' then drop 7 u0
                   else if has_prefix u0 ''https://'' then drop 8 u0 else u0);
             u2 = (if contains u1 ''/'' then takeWhile (\<lambda>c. c \<noteq> CHR ''/'') u1 else u1);
             u3 = (if contains u2 '':'' then takeWhile (\<lambda>c. c \<noteq> CHR '':'') u2 else u2)
         in u3)
      else Host service)"

definition performPostgresHealthcheck :: "net \<Rightarrow> Service \<Rightarrow> HealthcheckResult \<Rightarrow> probe_ret" where
  "performPostgresHealthcheck n service result =
     (let timeout = seconds (RequestTimeout service);
          dbUser = getEnv n ''DB_USER'' ''postgres'';
          dbPassword = getEnv n ''DB_PASSWORD'' ''password'';
          dbName = getEnv n ''DB_NAME'' ''service_weaver'';
          dbSSLMode = getEnv n ''DB_SSLMODE'' ''disable'';
          connStr = ''host='' @ postgresHost service @ '' port='' @ fmt_d (Port service) @
                    '' user='' @ dbUser @ '' password='' @ dbPassword @ '' dbname='' @ dbName @
                    '' sslmode='' @ dbSSLMode @ '' connect_timeout='' @ fmt_d (seconds_int timeout);
          e1 = SqlOpen ''postgres'' connStr;
          e2 = SqlPing timeout;
          e3 = SqlQueryRow ''SELECT version()''
      in case io_err n e1 of
           Some err \<Rightarrow> ret StatusDead (Some (''failed to connect to PostgreSQL: '' @ err)) result [e1]
         | None \<Rightarrow>
         (case io_err n e2 of
           Some err \<Rightarrow> ret StatusDead (Some (''PostgreSQL ping failed: '' @ err)) result [e1, e2]
         | None \<Rightarrow>
         (case io_err n e3 of
           Some err \<Rightarrow> ret StatusDegraded (Some (''PostgreSQL query failed: '' @ err)) result [e1, e2, e3]
         | None \<Rightarrow> alive n result [e1, e2, e3])))"

text \<open>\<^verbatim>\<open>HealthcheckScheduler.performMongoDBHealthcheck\<close>.\<close>

definition performMongoDBHealthcheck :: "net \<Rightarrow> Service \<Rightarrow> HealthcheckResult \<Rightarrow> probe_ret" where
  "performMongoDBHealthcheck n service result =
     (let timeout = seconds (RequestTimeout service);
          connStr = ''mongodb://'' @ Host service @ '':'' @ fmt_d (Port service);
          e1 = MongoConnect connStr timeout
      in case io_err n e1 of
           Some err \<Rightarrow> ret StatusDead (Some err) result [e1]
         | None \<Rightarrow>
             (case io_err n MongoPing of
                Some err \<Rightarrow> ret StatusDead (Some err) result [e1, MongoPing]
              | None \<Rightarrow> alive n result [e1, MongoPing]))"

text \<open>\<^verbatim>\<open>HealthcheckScheduler.performKafkaHealthcheck\<close>.\<close>

definition performKafkaHealthcheck :: "net \<Rightarrow> Service \<Rightarrow> HealthcheckResult \<Rightarrow> probe_ret" where
  "performKafkaHealthcheck n service result =
     (let timeout = seconds (RequestTimeout service);
          clientID = (if KafkaClientID service = [] then ''service-weaver-healthcheck''
                      else KafkaClientID service);
          e1 = KafkaNewClient (Host service @ '':'' @ fmt_d (Port service)) clientID timeout;
          e2 = KafkaClosed; e3 = KafkaController; e4 = KafkaBrokers; e5 = KafkaTopics;
          e6 = KafkaPartitions (KafkaTopic service)
      in case io_err n e1 of
           Some err \<Rightarrow> ret StatusDead (Some err) result [e1]
         | None \<Rightarrow>
         if \<not> io_flag n e2 then
           (case io_err n e3 of
              Some err \<Rightarrow> ret StatusDead (Some err) result [e1, e2, e3]
            | None \<Rightarrow>
            if io_size n e4 = 0 then
              ret StatusDead (Some ''no brokers available'') result [e1, e2, e3, e4]
            else if KafkaTopic service \<noteq> [] then
              (case io_list n e5 of
                 Inl err \<Rightarrow> ret StatusDead (Some err) result [e1, e2, e3, e4, e5]
               | Inr topics \<Rightarrow>
                 if \<not> list_ex (\<lambda>topic. topic = KafkaTopic service) topics then
                   ret StatusDegraded
                     (Some (''topic '' @ [CHR 0x27] @ KafkaTopic service @ [CHR 0x27] @ '' does not exist''))
                     result [e1, e2, e3, e4, e5]
                 else
                   (case io_code n e6 of
                      Inl err \<Rightarrow> ret StatusDegraded (Some err) result [e1, e2, e3, e4, e5, e6]
                    | Inr partitions \<Rightarrow>
                        if partitions = 0 then
                          ret StatusDegraded
                            (Some (''topic '' @ [CHR 0x27] @ KafkaTopic service @ [CHR 0x27] @
                                   '' has no partitions''))
                            result [e1, e2, e3, e4, e5, e6]
                        else alive n result [e1, e2, e3, e4, e5, e6]))
            else alive n result [e1, e2, e3, e4])
         else ret StatusDead (Some ''kafka client is closed'') result [e1, e2])"

section \<open>Probe runner\<close>

text \<open>
  The \<^verbatim>\<open>switch service.HealthcheckMethod\<close> of \<^verbatim>\<open>performHealthcheck\<close>, with its \<^verbatim>\<open>default\<close> branch.
\<close>

definition runProbe :: "net \<Rightarrow> Service \<Rightarrow> HealthcheckResult \<Rightarrow> probe_ret" where
  "runProbe n service result =
     (let m = HealthcheckMethod service
      in if m = ''HTTP'' \<or> m = ''HTTPS'' then performHTTPHealthcheck n service result
         else if m = ''TCP'' then performTCPHealthcheck n service result
         else if m = ''UDP'' then performUDPHealthcheck n service result
         else if m = ''ICMP'' then performICMPHealthcheck n service result
         else if m = ''DNS'' then performDNSHealthcheck n service result
         else if m = ''WEBSOCKET'' then performWebSocketHealthcheck n service result
         else if m = ''GRPC'' then performGRPCHealthcheck n service result
         else if m = ''SMTP'' then performSMTPHealthcheck n service result
         else if m = ''FTP'' then performFTPHealthcheck n service result
         else if m = ''SSH'' then performSSHHealthcheck n service result
         else if m = ''REDIS'' then performRedisHealthcheck n service result
         else if m = ''MYSQL'' then performMySQLHealthcheck n service result
         else if m = ''POSTGRES'' then performPostgresHealthcheck n service result
         else if m = ''MONGODB'' then performMongoDBHealthcheck n service result
         else if m = ''KAFKA'' then performKafkaHealthcheck n service result
         else (let err = ''unsupported health check method: '' @ m
               in ret StatusDead (Some err) (result\<lparr>Error := err\<rparr>) []))"

text \<open>
  The scheduler with what it shares: the buffered channel \<^verbatim>\<open>broadcast\<close> (capacity 100, oldest
  update first), the set of websocket clients (each connection a number), the lines written
  with \<^verbatim>\<open>log.Printf\<close>, and the two database tables the runner writes: per service id the
  columns \<^verbatim>\<open>current_status\<close> and \<^verbatim>\<open>last_checked\<close> of table \<^verbatim>\<open>services\<close>, and the rows of table
  \<^verbatim>\<open>healthcheck_results\<close>. \<open>inflight\<close> is not a variable of the program: it lists the
  service ids of the goroutines a tick has started and that have not returned.
\<close>

record sched =
  broadcast :: "StatusUpdate list"
  clients :: "nat list"
  logs :: "string list"
  services_tbl :: "int \<Rightarrow> (ServiceStatus \<times> int) option"
  results_tbl :: "HealthcheckResult list"
  inflight :: "int list"

definition broadcast_cap :: nat where
  "broadcast_cap = 100"

text \<open>
  One call of the repository: the error \<^verbatim>\<open>db.Exec\<close> returns, the database's
  \<^verbatim>\<open>CURRENT_TIMESTAMP\<close> and the scheduler's \<^verbatim>\<open>time.Now()\<close> after the call.
\<close>

record repo_call =
  call_err :: "string option"
  call_db_now :: int
  call_now :: int

text \<open>
  \<^verbatim>\<open>Repository.UpdateServiceStatus\<close>: an \<^verbatim>\<open>UPDATE ... WHERE id = $2\<close>, which changes the row
  when there is one. \<^verbatim>\<open>Repository.CreateHealthcheckResult\<close>: an \<^verbatim>\<open>INSERT\<close> of the columns
  \<^verbatim>\<open>service_id, status, status_code, response_time, error\<close>; \<^verbatim>\<open>checked_at\<close> is left to its
  default \<^verbatim>\<open>CURRENT_TIMESTAMP\<close>.
\<close>

definition UpdateServiceStatus :: "repo_call \<Rightarrow> int \<Rightarrow> ServiceStatus \<Rightarrow> sched \<Rightarrow> sched" where
  "UpdateServiceStatus c serviceID status st =
     (case services_tbl st serviceID of
        None \<Rightarrow> st
      | Some _ \<Rightarrow> st\<lparr>services_tbl := (services_tbl st)(serviceID \<mapsto> (status, call_db_now c))\<rparr>)"

definition CreateHealthcheckResult :: "repo_call \<Rightarrow> HealthcheckResult \<Rightarrow> sched \<Rightarrow> sched" where
  "CreateHealthcheckResult c result st =
     st\<lparr>results_tbl := results_tbl st @ [result\<lparr>CheckedAt := call_db_now c\<rparr>]\<rparr>"

text \<open>\<^verbatim>\<open>HealthcheckScheduler.updateServiceStatus\<close>.\<close>

definition updateServiceStatus :: "repo_call \<Rightarrow> int \<Rightarrow> ServiceStatus \<Rightarrow> sched \<Rightarrow> sched" where
  "updateServiceStatus c serviceID status st =
     (case call_err c of
        Some err \<Rightarrow> st\<lparr>logs := logs st @ [''Error updating service status: '' @ err]\<rparr>
      | None \<Rightarrow>
          (let st1 = UpdateServiceStatus c serviceID status st;
               update = \<lparr>UServiceID = serviceID, UStatus = status, UTimestamp = call_now c\<rparr>
           in if length (broadcast st1) < broadcast_cap
              then st1\<lparr>broadcast := broadcast st1 @ [update]\<rparr>
              else st1\<lparr>logs := logs st1 @ [''Broadcast channel full, dropping update'']\<rparr>))"

text \<open>
  What one run of \<^verbatim>\<open>performHealthcheck\<close> reads from outside: the clock at
  \<^verbatim>\<open>start := time.Now()\<close>, at \<^verbatim>\<open>time.Since(start)\<close> and at \<^verbatim>\<open>CheckedAt: time.Now()\<close>, the three
  repository calls, and the world of the probe.
\<close>

record env =
  clk_start :: int
  clk_since :: int
  clk_checked_at :: int
  checking_call :: repo_call
  create_call :: repo_call
  final_call :: repo_call
  probe_net :: net

text \<open>
  \<^verbatim>\<open>HealthcheckScheduler.performHealthcheck\<close>, as the steps of its own goroutine; it returns the
  state and the events of the probe. \<open>newResult\<close> is the result built before the switch:
  its response time is read right after the checking update, and its \<^verbatim>\<open>Status\<close> is Go's zero
  value until it is assigned after the switch (no code reads it before). \<open>probeOutcome\<close>
  is what the switch returns.
\<close>

definition newResult :: "env \<Rightarrow> Service \<Rightarrow> HealthcheckResult" where
  "newResult e service =
     \<lparr>ServiceID = ID service, Status = StatusUnknown, StatusCode = 0,
      ResponseTime = milliseconds (since (clk_since e) (clk_start e)),
      Error = [], CheckedAt = clk_checked_at e\<rparr>"

definition probeOutcome :: "env \<Rightarrow> Service \<Rightarrow> probe_ret" where
  "probeOutcome e service = runProbe (probe_net e) service (newResult e service)"

definition performHealthcheck :: "env \<Rightarrow> Service \<Rightarrow> sched \<Rightarrow> sched \<times> io_event list" where
  "performHealthcheck e service st =
     (let st1 = updateServiceStatus (checking_call e) (ID service) StatusChecking st;
          r = probeOutcome e service;
          status = p_status r;
          result1 = (p_result r)\<lparr>Status := status\<rparr>;
          result2 = (case p_err r of Some err \<Rightarrow> result1\<lparr>Error := err\<rparr> | None \<Rightarrow> result1);
          st2 = (case call_err (create_call e) of
                   Some err \<Rightarrow> st1\<lparr>logs := logs st1 @ [''Error saving healthcheck result: '' @ err]\<rparr>
                 | None \<Rightarrow> CreateHealthcheckResult (create_call e) result2 st1)
      in (updateServiceStatus (final_call e) (ID service) status st2, p_trace r))"

section \<open>Broadcast hub\<close>

text \<open>\<^verbatim>\<open>AddClient\<close> and \<^verbatim>\<open>RemoveClient\<close>.\<close>

definition AddClient :: "nat \<Rightarrow> sched \<Rightarrow> sched" where
  "AddClient conn st = st\<lparr>clients := (if conn \<in> set (clients st) then clients st else clients st @ [conn])\<rparr>"

definition RemoveClient :: "nat \<Rightarrow> sched \<Rightarrow> sched" where
  "RemoveClient conn st = st\<lparr>clients := removeAll conn (clients st)\<rparr>"

text \<open>
  The \<^verbatim>\<open>for client := range h.clients\<close> loop of \<^verbatim>\<open>broadcastHandler\<close>: \<open>w\<close> answers the error
  of \<^verbatim>\<open>client.WriteJSON(update)\<close> for each client; the loop returns the clients that stay
  and the lines it logs.
\<close>

fun writeAll :: "(nat \<Rightarrow> string option) \<Rightarrow> nat list \<Rightarrow> nat list \<times> string list" where
  "writeAll w [] = ([], [])"
| "writeAll w (client # rest) =
     (case w client of
        None \<Rightarrow> (client # fst (writeAll w rest), snd (writeAll w rest))
      | Some err \<Rightarrow> (fst (writeAll w rest),
                     (''Error broadcasting to client: '' @ err) # snd (writeAll w rest)))"

text \<open>
  \<^verbatim>\<open>HealthcheckScheduler.broadcastHandler\<close>. Each turn of its \<^verbatim>\<open>select\<close> either receives the
  oldest update of the channel (the event carries the answers of the writes of that turn) or
  sees the context cancelled and returns. A receive on an empty channel does not fire.
\<close>

datatype hub_event = Receive "nat \<Rightarrow> string option" | HubDone

fun broadcastHandler :: "hub_event list \<Rightarrow> sched \<Rightarrow> sched" where
  "broadcastHandler [] st = st"
| "broadcastHandler (HubDone # evs) st = st"
| "broadcastHandler (Receive w # evs) st =
     (case broadcast st of
        [] \<Rightarrow> broadcastHandler evs st
      | update # queue \<Rightarrow>
          broadcastHandler evs
            (st\<lparr>broadcast := queue,
                clients := fst (writeAll w (clients st)),
                logs := logs st @ snd (writeAll w (clients st))\<rparr>))"

section \<open>Scheduler loop\<close>

text \<open>
  \<^verbatim>\<open>HealthcheckScheduler.scheduleHealthchecks\<close>. A tick carries the instant its loop reads the
  clock and the answer of \<^verbatim>\<open>GetAllServices\<close>; \<^verbatim>\<open>go h.performHealthcheck(service)\<close> adds the
  service to \<open>inflight\<close>, and the return of that goroutine (\<open>probeReturns\<close>) takes it out.
\<close>

definition tick :: "int \<Rightarrow> string + Service list \<Rightarrow> sched \<Rightarrow> sched" where
  "tick now answer st =
     (case answer of
        Inl err \<Rightarrow> st\<lparr>logs := logs st @ [''Error getting services: '' @ err]\<rparr>
      | Inr services \<Rightarrow>
          st\<lparr>inflight := inflight st @ map ID (filter (shouldCheck now) services)\<rparr>)"

definition probeReturns :: "int \<Rightarrow> sched \<Rightarrow> sched" where
  "probeReturns serviceID st = st\<lparr>inflight := remove1 serviceID (inflight st)\<rparr>"

datatype sched_event = Tick int "string + Service list" | ProbeReturns int | CtxDone

fun scheduleHealthchecks :: "sched_event list \<Rightarrow> sched \<Rightarrow> sched" where
  "scheduleHealthchecks [] st = st"
| "scheduleHealthchecks (CtxDone # evs) st = st"
| "scheduleHealthchecks (Tick now answer # evs) st = scheduleHealthchecks evs (tick now answer st)"
| "scheduleHealthchecks (ProbeReturns serviceID # evs) st =
     scheduleHealthchecks evs (probeReturns serviceID st)"

section \<open>Concrete inputs\<close>

text \<open>
  A service row holding the column defaults of table \<^verbatim>\<open>services\<close> (HTTP on port 80, polling
  every 30 s, timeout 5 s, expected status 200), a world in which every operation succeeds
  and the probe takes 50 ms, repository calls that succeed or fail, and a scheduler that
  has just started with that one service in its table.
\<close>

definition service0 :: Service where
  "service0 = \<lparr>ID = 1, Host = ''h'', Port = 80, HealthcheckMethod = ''HTTP'',
     HealthcheckURL = ''/healthz'', PollingInterval = 30, RequestTimeout = 5,
     ExpectedStatus = 200, StatusMapping = [], HTTPMethod = ''GET'', Headers = [], Body = [],
     SSLVerify = True, FollowRedirects = True, TCPSendData = [], TCPExpectData = [],
     UDPSendData = [], UDPExpectData = [], ICMPPacketCount = 3, DNSQueryType = ''A'',
     DNSExpectedResult = [], KafkaTopic = [], KafkaClientID = ''service-weaver-healthcheck'',
     FrontendHostURL = [], CurrentStatus = StatusUnknown, LastChecked = None\<rparr>"

definition net0 :: net where
  "net0 = \<lparr>io_err = (\<lambda>_. None), io_text = (\<lambda>_. Inr []), io_list = (\<lambda>_. Inr []),
     io_code = (\<lambda>_. Inr 200), io_flag = (\<lambda>_. False), io_size = (\<lambda>_. 1),
     lookup_env = (\<lambda>_. None), probe_start = 3000000, probe_end = 53000000\<rparr>"

definition dial_fails :: "io_event \<Rightarrow> string option" where
  "dial_fails ev = (case ev of Dial _ _ _ \<Rightarrow> Some ''i/o timeout'' | _ \<Rightarrow> None)"

definition repo_ok :: "int \<Rightarrow> repo_call" where
  "repo_ok t = \<lparr>call_err = None, call_db_now = t, call_now = t\<rparr>"

definition repo_fails :: "int \<Rightarrow> repo_call" where
  "repo_fails t = \<lparr>call_err = Some ''connection refused'', call_db_now = t, call_now = t\<rparr>"

definition env0 :: env where
  "env0 = \<lparr>clk_start = 0, clk_since = 2000000, clk_checked_at = 2000000,
     checking_call = repo_ok 1000000, create_call = repo_ok 54000000,
     final_call = repo_ok 55000000, probe_net = net0\<rparr>"

definition sched0 :: sched where
  "sched0 = \<lparr>broadcast = [], clients = [], logs = [],
     services_tbl = (\<lambda>i. if i = 1 then Some (StatusUnknown, 0) else None),
     results_tbl = [], inflight = []\<rparr>"

text \<open>The method names the switch of \<^verbatim>\<open>performHealthcheck\<close> has a case for.\<close>

definition recognizedMethods :: "string list" where
  "recognizedMethods =
     [''HTTP'', ''HTTPS'', ''TCP'', ''UDP'', ''ICMP'', ''DNS'', ''WEBSOCKET'', ''GRPC'', ''SMTP'',
      ''FTP'', ''SSH'', ''REDIS'', ''MYSQL'', ''POSTGRES'', ''MONGODB'', ''KAFKA'']"

section \<open>Durations in whole seconds\<close>

text \<open>
  The recursion of \<open>bit_length\<close> is unfolded on numerals only.
\<close>

declare bit_length.simps [simp del]

lemma bit_length_numeral [simp]:
  "bit_length 0 = 0" "bit_length 1 = 1"
  "bit_length (numeral k) = Suc (bit_length (numeral k div 2))"
  "bit_length (- numeral k) = 0"
  by (simp_all add: bit_length.simps [of 0] bit_length.simps [of 1] bit_length.simps [of "numeral k"]
      bit_length.simps [of "- numeral k"])

lemmas float_eval = seconds_int_def tdiv_def trem_def float_trunc_def float_add_def float_div_def
  float_of_int_def nearest64_def round_at_def floor_log2_def round_even_def Let_def

text \<open>
  An integer below \<open>2 ^ 53\<close> in magnitude is a \<^verbatim>\<open>float64\<close>, so a duration of a whole number
  of seconds converts to that number.
\<close>

lemma bit_length_upper: "n < 2 ^ bit_length n"
proof (induction n rule: bit_length.induct)
  case (1 n)
  show ?case
  proof (cases "n \<le> 0")
    case True
    then show ?thesis by (simp add: bit_length.simps [of n])
  next
    case False
    with 1 have "n div 2 < 2 ^ bit_length (n div 2)" by simp
    then have "n < 2 * 2 ^ bit_length (n div 2)" by linarith
    with False show ?thesis by (simp add: bit_length.simps [of n])
  qed
qed

lemma bit_length_le: "n < 2 ^ w \<Longrightarrow> bit_length n \<le> w"
proof (induction n arbitrary: w rule: bit_length.induct)
  case (1 n)
  show ?case
  proof (cases "n \<le> 0")
    case True
    then show ?thesis by (simp add: bit_length.simps [of n])
  next
    case False
    then have "w \<noteq> 0" using 1(2) by (cases w) auto
    then obtain v where w: "w = Suc v" by (cases w) auto
    with 1(2) have "n div 2 < 2 ^ v" by simp
    with 1(1) False have "bit_length (n div 2) \<le> v" by simp
    with False w show ?thesis by (simp add: bit_length.simps [of n])
  qed
qed

lemma floor_log2_le:
  assumes "0 < a" and "a < 2 ^ 53" and "0 < b"
  shows "floor_log2 (a * b) b \<le> 52"
proof -
  let ?k = "int (bit_length (a * b)) - int (bit_length b)"
  have "b < 2 ^ bit_length b" by (rule bit_length_upper)
  then have "a * b < 2 ^ 53 * 2 ^ bit_length b"
    using assms by (meson mult_strict_mono less_imp_le zero_less_power zero_less_numeral order_less_imp_le)
  then have "a * b < 2 ^ (53 + bit_length b)" by (simp add: power_add)
  then have "bit_length (a * b) \<le> 53 + bit_length b" by (rule bit_length_le)
  then have k53: "?k \<le> 53" by simp
  show ?thesis
  proof (cases "b * 2 ^ nat ?k \<le> a * b * 2 ^ nat (- ?k)")
    case False
    with k53 show ?thesis by (simp add: floor_log2_def Let_def)
  next
    case True
    have "?k \<le> 52"
    proof (rule ccontr)
      assume "\<not> ?k \<le> 52"
      with k53 have k: "?k = 53" by simp
      with True have "b * 2 ^ 53 \<le> a * b" by simp
      then have "2 ^ 53 * b \<le> a * b" by (simp add: mult.commute)
      with assms(3) have "2 ^ 53 \<le> a" by simp
      with assms(2) show False by simp
    qed
    with True show ?thesis by (simp add: floor_log2_def Let_def)
  qed
qed

lemma round_at_exact:
  assumes "0 < b" and "e \<le> 0"
  shows "round_at (a * b) b e = (a * 2 ^ nat (- e), e)"
proof -
  have "a * b * 2 ^ nat (- e) = (a * 2 ^ nat (- e)) * b" by (simp add: mult.commute mult.left_commute)
  then show ?thesis using assms by (simp add: round_at_def round_even_def)
qed

lemma nearest64_exact:
  assumes "a \<noteq> 0" and "\<bar>a\<bar> < 2 ^ 53" and "0 < b"
  shows "\<exists>j. nearest64 (a * b) b = (a * 2 ^ j, - int j)"
proof -
  let ?e = "floor_log2 \<bar>a * b\<bar> b - 52"
  have ab: "\<bar>a * b\<bar> = \<bar>a\<bar> * b" using assms(3) by (simp add: abs_mult)
  have "0 < \<bar>a\<bar>" using assms(1) by simp
  then have "floor_log2 (\<bar>a\<bar> * b) b \<le> 52" using assms(2,3) by (rule floor_log2_le)
  then have e: "?e \<le> 0" by (simp add: ab)
  have "a * b \<noteq> 0" using assms by simp
  then have "nearest64 (a * b) b = round_at (a * b) b ?e" by (simp add: nearest64_def)
  also have "\<dots> = (a * 2 ^ nat (- ?e), ?e)" using assms(3) e by (rule round_at_exact)
  finally have "nearest64 (a * b) b = (a * 2 ^ nat (- ?e), - int (nat (- ?e)))" using e by simp
  then show ?thesis by blast
qed

lemma tdiv_mult: "0 < m \<Longrightarrow> tdiv (a * m) m = a"
  by (simp add: tdiv_def abs_mult sgn_mult mult_sgn_abs)

lemma float_trunc_exact: "float_trunc (a * 2 ^ j, - int j) = a"
  by (simp add: float_trunc_def tdiv_mult)

lemma seconds_int_whole:
  assumes "\<bar>n\<bar> < 2 ^ 53"
  shows "seconds_int (n * 1000000000) = n"
proof -
  have d: "tdiv (n * 1000000000) 1000000000 = n" by (rule tdiv_mult) simp
  have r: "trem (n * 1000000000) 1000000000 = 0" by (simp add: trem_def d)
  have z: "float_div (float_of_int 0) (float_of_int 1000000000) = (0, 0)"
    by (simp add: float_div_def float_of_int_def nearest64_def)
  have u: "seconds_int (n * 1000000000) =
      float_trunc (float_add (float_of_int n) (0, 0))"
    by (simp only: seconds_int_def d r z)
  show ?thesis
  proof (cases "n = 0")
    case True
    have "float_of_int 0 = (0, 0)" by (simp add: float_of_int_def nearest64_def)
    moreover have "float_add (0, 0) (0, 0) = (0, 0)" by (simp add: float_add_def nearest64_def)
    moreover have "float_trunc (0, 0) = 0" by (simp add: float_trunc_def tdiv_def)
    ultimately show ?thesis using True u by simp
  next
    case False
    from nearest64_exact [OF False assms, of 1]
    obtain j where j: "float_of_int n = (n * 2 ^ j, - int j)" by (auto simp: float_of_int_def)
    have "float_add (n * 2 ^ j, - int j) (0, 0) = nearest64 (n * 2 ^ j) (2 ^ j)"
      by (simp add: float_add_def min_def)
    moreover from nearest64_exact [OF False assms, of "2 ^ j"]
    obtain i where "nearest64 (n * 2 ^ j) (2 ^ j) = (n * 2 ^ i, - int i)" by auto
    ultimately show ?thesis
      by (simp add: u j float_trunc_exact)
  qed
qed

text \<open>
  Where the duration is not a whole number of seconds the sum is rounded, and the
  conversion can give one second more than the truncated quotient: this duration of
  9000000000.999999488 s is what \<^verbatim>\<open>time.Duration(15817298833210772) * time.Second\<close> wraps
  around to.
\<close>

lemma seconds_int_rounds_up:
  "seconds 15817298833210772 = 9000000000999999488"
  "seconds_int 9000000000999999488 = 9000000001"
  by (simp_all add: seconds_def wrap64_def float_eval)

section \<open>Status classifier: the mapping wins, and only the three tags count\<close>

lemma determineStatus_mappedTag:
  "determineStatus c s =
     (case mappedTag (StatusMapping s) c of Some tag \<Rightarrow> tag | None \<Rightarrow> fallbackStatus c s)"
proof (cases "map_of (StatusMapping s) (fmt_d c)")
  case None
  then show ?thesis
    by (simp add: determineStatus_def mappedTag_def)
next
  case (Some v)
  then have ne: "StatusMapping s \<noteq> []" by auto
  from Some ne show ?thesis
    by (cases v) (simp_all add: determineStatus_def mappedTag_def)
qed

text \<open>
  Claim C2. For every response code \<open>c\<close> and every service: when the status mapping holds,
  under the string form of \<open>c\<close>, one of the tags "alive", "degraded", "dead", the classifier
  returns that status, whatever the expected status is; otherwise it returns alive when
  \<open>c\<close> is the expected status, otherwise degraded when \<open>c\<close> is 429 or 503, otherwise dead.
\<close>

theorem determineStatus_mapping_first:
  "determineStatus c s =
     (case mappedTag (StatusMapping s) c of
        Some tag \<Rightarrow> tag
      | None \<Rightarrow> if c = ExpectedStatus s then StatusAlive
                else if c = 429 \<or> c = 503 then StatusDegraded
                else StatusDead)"
  unfolding determineStatus_mappedTag fallbackStatus_def ..

theorem determineStatus_mapping_first_witness:
  "determineStatus 200 (service0\<lparr>StatusMapping := [(''200'', JString ''degraded'')]\<rparr>) = StatusDegraded"
  using determineStatus_mapping_first [of 200 "service0\<lparr>StatusMapping := [(''200'', JString ''degraded'')]\<rparr>"]
  by (simp add: mappedTag_def service0_def fmt_d_def digit_char_def)

lemma determineStatus_cases:
  "determineStatus c s = StatusAlive \<or> determineStatus c s = StatusDegraded \<or>
   determineStatus c s = StatusDead"
proof (cases "map_of (StatusMapping s) (fmt_d c)")
  case None
  then show ?thesis by (simp add: determineStatus_def fallbackStatus_def)
next
  case (Some v)
  then show ?thesis
    by (cases v) (simp_all add: determineStatus_def fallbackStatus_def)
qed

lemma determineStatus_ignored:
  assumes "map_of (StatusMapping s) (fmt_d c) = Some v"
    and "v \<noteq> JString ''alive''" and "v \<noteq> JString ''degraded''" and "v \<noteq> JString ''dead''"
  shows "determineStatus c s = fallbackStatus c s"
  using assms by (cases v) (simp_all add: determineStatus_def)

text \<open>
  Claim C10. The classifier never returns unknown or checking, and an entry of the status
  mapping whose value is not one of the strings "alive", "degraded", "dead" (a value that is
  no string, or another tag) is ignored: the expected-status rule and the 429/503 rule
  decide.
\<close>

theorem determineStatus_range:
  "determineStatus c s \<noteq> StatusUnknown \<and> determineStatus c s \<noteq> StatusChecking \<and>
   (map_of (StatusMapping s) (fmt_d c) = Some v \<and>
    v \<noteq> JString ''alive'' \<and> v \<noteq> JString ''degraded'' \<and> v \<noteq> JString ''dead'' \<longrightarrow>
      determineStatus c s =
        (if c = ExpectedStatus s then StatusAlive
         else if c = 429 \<or> c = 503 then StatusDegraded
         else StatusDead))"
proof -
  have a: "determineStatus c s \<noteq> StatusUnknown" "determineStatus c s \<noteq> StatusChecking"
    using determineStatus_cases [of c s] by auto
  have b: "map_of (StatusMapping s) (fmt_d c) = Some v \<and>
    v \<noteq> JString ''alive'' \<and> v \<noteq> JString ''degraded'' \<and> v \<noteq> JString ''dead'' \<longrightarrow>
      determineStatus c s =
        (if c = ExpectedStatus s then StatusAlive
         else if c = 429 \<or> c = 503 then StatusDegraded
         else StatusDead)"
    using determineStatus_ignored [of s c v] by (simp add: fallbackStatus_def)
  from a b show ?thesis by blast
qed

theorem determineStatus_range_witness:
  "determineStatus 503 (service0\<lparr>StatusMapping := [(''503'', JString ''up'')]\<rparr>) = StatusDegraded \<and>
   determineStatus 200 (service0\<lparr>StatusMapping := [(''200'', JNumber 1)]\<rparr>) = StatusAlive"
  using determineStatus_range [of 503 "service0\<lparr>StatusMapping := [(''503'', JString ''up'')]\<rparr>" "JString ''up''"]
        determineStatus_range [of 200 "service0\<lparr>StatusMapping := [(''200'', JNumber 1)]\<rparr>" "JNumber 1"]
  by (simp add: service0_def fmt_d_def digit_char_def)

section \<open>shouldCheck\<close>

lemma wrap64_id: "- (2 ^ 63) \<le> x \<Longrightarrow> x < 2 ^ 63 \<Longrightarrow> wrap64 x = x"
  unfolding wrap64_def by (simp add: mod_pos_pos_trivial)

lemma sat64_ge: "- (2 ^ 63) < x \<Longrightarrow> x < 2 ^ 63 \<Longrightarrow> (x \<le> sat64 d) = (x \<le> d)"
  unfolding sat64_def by (simp split: if_splits)

lemma seconds_exact:
  assumes "- 9223372036 \<le> n" and "n \<le> 9223372036"
  shows "seconds n = n * 1000000000"
proof -
  have "- (2 ^ 63) \<le> n * 1000000000" using assms(1) by simp
  moreover have "n * 1000000000 < 2 ^ 63" using assms(2) by simp
  ultimately show ?thesis by (simp add: seconds_def wrap64_id)
qed

lemma shouldCheck_iff_duration:
  assumes "- 9223372036 \<le> PollingInterval s" and "PollingInterval s \<le> 9223372036"
  shows "shouldCheck now s \<longleftrightarrow>
           Host s \<noteq> [] \<and>
           (HealthcheckMethod s = ''HTTP'' \<or> HealthcheckMethod s = ''HTTPS'' \<or>
            HealthcheckMethod s = ''WEBSOCKET'' \<or> HealthcheckMethod s = ''WSS'' \<or>
            HealthcheckMethod s = ''GRPC'' \<longrightarrow> HealthcheckURL s \<noteq> []) \<and>
           (LastChecked s = None \<or>
            (\<exists>t. LastChecked s = Some t \<and> PollingInterval s * 1000000000 \<le> now - t))"
proof -
  have lo: "- (2 ^ 63) < PollingInterval s * 1000000000" using assms(1) by simp
  have hi: "PollingInterval s * 1000000000 < 2 ^ 63" using assms(2) by simp
  have w: "seconds (PollingInterval s) = PollingInterval s * 1000000000"
    using assms by (rule seconds_exact)
  have g: "\<And>t. (seconds (PollingInterval s) \<le> since now t) =
                (PollingInterval s * 1000000000 \<le> now - t)"
    unfolding w since_def using lo hi by (rule sat64_ge)
  show ?thesis
  proof (cases "LastChecked s")
    case None
    then show ?thesis by (simp add: shouldCheck_def)
  next
    case (Some t)
    then show ?thesis by (simp add: shouldCheck_def g) blast
  qed
qed

text \<open>
  Claim C3. For every service the scheduler reads from its store (\<^verbatim>\<open>polling_interval\<close> is a
  32-bit integer column of table \<^verbatim>\<open>services\<close>, so the interval in nanoseconds always fits a
  \<^verbatim>\<open>time.Duration\<close>), \<open>shouldCheck\<close> is true exactly when the host is not empty, the path is
  not empty if the method is HTTP, HTTPS, WEBSOCKET, WSS or GRPC, and the service was never
  checked or the time since the last check is at least the polling interval in seconds.
\<close>

theorem shouldCheck_iff:
  assumes "- 2147483648 \<le> PollingInterval s" and "PollingInterval s \<le> 2147483647"
  shows "shouldCheck now s \<longleftrightarrow>
           Host s \<noteq> [] \<and>
           (HealthcheckMethod s = ''HTTP'' \<or> HealthcheckMethod s = ''HTTPS'' \<or>
            HealthcheckMethod s = ''WEBSOCKET'' \<or> HealthcheckMethod s = ''WSS'' \<or>
            HealthcheckMethod s = ''GRPC'' \<longrightarrow> HealthcheckURL s \<noteq> []) \<and>
           (LastChecked s = None \<or>
            (\<exists>t. LastChecked s = Some t \<and> PollingInterval s * 1000000000 \<le> now - t))"
proof -
  have "- 9223372036 \<le> PollingInterval s" using assms(1) by simp
  moreover have "PollingInterval s \<le> 9223372036" using assms(2) by simp
  ultimately show ?thesis by (rule shouldCheck_iff_duration)
qed

theorem shouldCheck_iff_witness:
  "shouldCheck 30000000000 (service0\<lparr>LastChecked := Some 0\<rparr>) \<and>
   \<not> shouldCheck 29999999999 (service0\<lparr>LastChecked := Some 0\<rparr>) \<and>
   \<not> shouldCheck 2147483646999999999 (service0\<lparr>PollingInterval := 2147483647, LastChecked := Some 0\<rparr>) \<and>
   shouldCheck 2147483647000000000 (service0\<lparr>PollingInterval := 2147483647, LastChecked := Some 0\<rparr>)"
  using shouldCheck_iff [of "service0\<lparr>LastChecked := Some 0\<rparr>" 30000000000]
        shouldCheck_iff [of "service0\<lparr>LastChecked := Some 0\<rparr>" 29999999999]
        shouldCheck_iff [of "service0\<lparr>PollingInterval := 2147483647, LastChecked := Some 0\<rparr>" 2147483646999999999]
        shouldCheck_iff [of "service0\<lparr>PollingInterval := 2147483647, LastChecked := Some 0\<rparr>" 2147483647000000000]
  by (simp add: service0_def)

section \<open>Broadcast hub: a full channel drops, only a failed write evicts\<close>

lemma broadcast_UpdateServiceStatus [simp]:
  "broadcast (UpdateServiceStatus c i s st) = broadcast st"
  by (simp add: UpdateServiceStatus_def split: option.splits)

lemma clients_UpdateServiceStatus [simp]:
  "clients (UpdateServiceStatus c i s st) = clients st"
  by (simp add: UpdateServiceStatus_def split: option.splits)

lemma logs_UpdateServiceStatus [simp]:
  "logs (UpdateServiceStatus c i s st) = logs st"
  by (simp add: UpdateServiceStatus_def split: option.splits)

lemma broadcast_updateServiceStatus:
  "broadcast (updateServiceStatus c i s st) =
     (if call_err c = None \<and> length (broadcast st) < broadcast_cap
      then broadcast st @ [\<lparr>UServiceID = i, UStatus = s, UTimestamp = call_now c\<rparr>]
      else broadcast st)"
  by (simp add: updateServiceStatus_def Let_def split: option.splits)

lemma clients_updateServiceStatus:
  "clients (updateServiceStatus c i s st) = clients st"
  by (simp add: updateServiceStatus_def Let_def split: option.splits)

lemma logs_updateServiceStatus:
  "logs (updateServiceStatus c i s st) =
     (case call_err c of
        Some err \<Rightarrow> logs st @ [''Error updating service status: '' @ err]
      | None \<Rightarrow> if length (broadcast st) < broadcast_cap then logs st
                else logs st @ [''Broadcast channel full, dropping update''])"
  by (simp add: updateServiceStatus_def Let_def split: option.splits)

lemma fst_writeAll: "fst (writeAll w cs) = filter (\<lambda>cl. w cl = None) cs"
  by (induction cs) (simp_all split: option.splits)

lemma broadcast_CreateHealthcheckResult [simp]:
  "broadcast (CreateHealthcheckResult c r st) = broadcast st"
  by (simp add: CreateHealthcheckResult_def)

lemma handler_evicts_on_error:
  "cl \<in> set (clients st) \<Longrightarrow> cl \<notin> set (clients (broadcastHandler evs st)) \<Longrightarrow>
   \<exists>w. Receive w \<in> set evs \<and> w cl \<noteq> None"
proof (induction evs arbitrary: st)
  case Nil
  then show ?case by simp
next
  case (Cons ev evs)
  show ?case
  proof (cases ev)
    case HubDone
    with Cons.prems show ?thesis by simp
  next
    case (Receive w)
    show ?thesis
    proof (cases "broadcast st")
      case Nil
      with Receive Cons.prems have "cl \<notin> set (clients (broadcastHandler evs st))" by simp
      from Cons.IH [OF Cons.prems(1) this] show ?thesis by auto
    next
      case (Cons update queue)
      let ?st' = "st\<lparr>broadcast := queue, clients := fst (writeAll w (clients st)),
                       logs := logs st @ snd (writeAll w (clients st))\<rparr>"
      from Cons Receive Cons.prems
      have out: "cl \<notin> set (clients (broadcastHandler evs ?st'))" by simp
      show ?thesis
      proof (cases "w cl")
        case None
        with Cons.prems(1) have "cl \<in> set (clients ?st')" by (simp add: fst_writeAll)
        from Cons.IH [OF this out] show ?thesis by auto
      next
        case (Some err)
        with Receive show ?thesis by auto
      qed
    qed
  qed
qed

text \<open>
  Claim C9. Publishing does not wait: \<open>updateServiceStatus\<close> always returns, and when the
  channel already holds its 100 updates the new update is dropped, the channel is left as
  it was and one line is logged. Publishing never touches the set of clients, whatever the
  channel holds; a turn of the handler removes exactly the clients whose write of the
  update failed, and over any run of the handler a client that is gone had a write fail.
\<close>

theorem publish_never_blocks:
  "(call_err c = None \<and> broadcast_cap \<le> length (broadcast st) \<longrightarrow>
      broadcast (updateServiceStatus c i s st) = broadcast st \<and>
      logs (updateServiceStatus c i s st) = logs st @ [''Broadcast channel full, dropping update'']) \<and>
   clients (updateServiceStatus c i s st) = clients st \<and>
   clients (broadcastHandler [Receive w] st) =
     (if broadcast st = [] then clients st else filter (\<lambda>cl. w cl = None) (clients st)) \<and>
   (cl \<in> set (clients st) \<and> cl \<notin> set (clients (broadcastHandler evs st)) \<longrightarrow>
      (\<exists>w'. Receive w' \<in> set evs \<and> w' cl \<noteq> None))"
proof -
  have a: "call_err c = None \<and> broadcast_cap \<le> length (broadcast st) \<longrightarrow>
      broadcast (updateServiceStatus c i s st) = broadcast st \<and>
      logs (updateServiceStatus c i s st) = logs st @ [''Broadcast channel full, dropping update'']"
    by (simp add: broadcast_updateServiceStatus logs_updateServiceStatus)
  have b: "clients (broadcastHandler [Receive w] st) =
     (if broadcast st = [] then clients st else filter (\<lambda>cl. w cl = None) (clients st))"
    by (simp add: fst_writeAll split: list.splits)
  from a b clients_updateServiceStatus [of c i s st] handler_evicts_on_error [of cl st evs]
  show ?thesis by blast
qed

theorem publish_never_blocks_witness:
  "broadcast (updateServiceStatus (repo_ok 7) 1 StatusAlive
      (sched0\<lparr>broadcast := replicate 100 \<lparr>UServiceID = 2, UStatus = StatusDead, UTimestamp = 0\<rparr>,
              clients := [4, 5]\<rparr>))
     = replicate 100 \<lparr>UServiceID = 2, UStatus = StatusDead, UTimestamp = 0\<rparr> \<and>
   clients (updateServiceStatus (repo_ok 7) 1 StatusAlive
      (sched0\<lparr>broadcast := replicate 100 \<lparr>UServiceID = 2, UStatus = StatusDead, UTimestamp = 0\<rparr>,
              clients := [4, 5]\<rparr>)) = [4, 5] \<and>
   clients (broadcastHandler [Receive (\<lambda>cl. if cl = 4 then Some ''broken pipe'' else None)]
      (sched0\<lparr>broadcast := replicate 100 \<lparr>UServiceID = 2, UStatus = StatusDead, UTimestamp = 0\<rparr>,
              clients := [4, 5]\<rparr>)) = [5]"
  using publish_never_blocks [of "repo_ok 7"
      "sched0\<lparr>broadcast := replicate 100 \<lparr>UServiceID = 2, UStatus = StatusDead, UTimestamp = 0\<rparr>,
              clients := [4, 5]\<rparr>" 1 StatusAlive "\<lambda>cl. if cl = 4 then Some ''broken pipe'' else None"
      4 "[Receive (\<lambda>cl. if cl = 4 then Some ''broken pipe'' else None)]"]
  by (simp add: repo_ok_def sched0_def broadcast_cap_def)

section \<open>Probe runner: what is published after the probe\<close>

lemma performHealthcheck_state:
  "fst (performHealthcheck e service st) =
     updateServiceStatus (final_call e) (ID service) (p_status (probeOutcome e service))
       (case call_err (create_call e) of
          Some err \<Rightarrow>
            (updateServiceStatus (checking_call e) (ID service) StatusChecking st)
              \<lparr>logs := logs (updateServiceStatus (checking_call e) (ID service) StatusChecking st) @
                        [''Error saving healthcheck result: '' @ err]\<rparr>
        | None \<Rightarrow>
            CreateHealthcheckResult (create_call e)
              (case p_err (probeOutcome e service) of
                 Some err \<Rightarrow> (p_result (probeOutcome e service))
                               \<lparr>Status := p_status (probeOutcome e service), Error := err\<rparr>
               | None \<Rightarrow> (p_result (probeOutcome e service))
                            \<lparr>Status := p_status (probeOutcome e service)\<rparr>)
              (updateServiceStatus (checking_call e) (ID service) StatusChecking st))"
  by (simp add: performHealthcheck_def Let_def split: option.splits)

lemma broadcast_before_final:
  "broadcast (case call_err (create_call e) of
          Some err \<Rightarrow> st1\<lparr>logs := logs st1 @ [x err]\<rparr>
        | None \<Rightarrow> CreateHealthcheckResult (create_call e) r st1) = broadcast st1"
  by (simp add: CreateHealthcheckResult_def split: option.splits)

lemma results_tbl_UpdateServiceStatus [simp]:
  "results_tbl (UpdateServiceStatus c i s st) = results_tbl st"
  by (simp add: UpdateServiceStatus_def split: option.splits)

lemma results_tbl_updateServiceStatus [simp]:
  "results_tbl (updateServiceStatus c i s st) = results_tbl st"
  by (simp add: updateServiceStatus_def Let_def split: option.splits)

lemma logs_CreateHealthcheckResult [simp]:
  "logs (CreateHealthcheckResult c r st) = logs st"
  by (simp add: CreateHealthcheckResult_def)

lemma results_tbl_CreateHealthcheckResult [simp]:
  "results_tbl (CreateHealthcheckResult c r st) = results_tbl st @ [r\<lparr>CheckedAt := call_db_now c\<rparr>]"
  by (simp add: CreateHealthcheckResult_def)

lemma outcome0: "probe_net e = net0 \<Longrightarrow> p_status (probeOutcome e service0) = StatusAlive"
    by (simp add: probeOutcome_def runProbe_def performHTTPHealthcheck_def Let_def net0_def
        service0_def ret_def determineStatus_def fallbackStatus_def)

lemma checking0:
  "broadcast (updateServiceStatus (repo_ok 1000000) 1 StatusChecking sched0) =
           [\<lparr>UServiceID = 1, UStatus = StatusChecking, UTimestamp = 1000000\<rparr>]"
  "logs (updateServiceStatus (repo_ok 1000000) 1 StatusChecking sched0) = []"
  by (simp_all add: broadcast_updateServiceStatus logs_updateServiceStatus repo_ok_def sched0_def
      broadcast_cap_def)

lemma response0:
  assumes "probe_net e = net0"
  shows "p_err (probeOutcome e service0) = None"
    and "ResponseTime (p_result (probeOutcome e service0)) = 50"
  using assms
  by (simp_all add: probeOutcome_def runProbe_def performHTTPHealthcheck_def Let_def net0_def
      service0_def ret_def milliseconds_def since_def sat64_def tdiv_def)

lemma env0_calls:
  "checking_call env0 = repo_ok 1000000" "create_call env0 = repo_ok 54000000"
  "final_call env0 = repo_ok 55000000" "probe_net env0 = net0"
  by (simp_all add: env0_def)

lemma repo_call_fields:
  "call_err (repo_ok t) = None" "call_now (repo_ok t) = t" "call_db_now (repo_ok t) = t"
  "call_err (repo_fails t) = Some ''connection refused''"
  by (simp_all add: repo_ok_def repo_fails_def)

text \<open>
  Claim C1, as stated, fails for one of the two persistence operations: when the update of
  the latest status fails after the probe, \<open>updateServiceStatus\<close> logs and returns before
  it builds the update. Here the probe answers alive, the final update fails, and the
  channel holds the checking update alone.
\<close>

theorem terminal_update_suppressed_counterexample:
  "call_err (final_call (env0\<lparr>final_call := repo_fails 55000000\<rparr>)) = Some ''connection refused'' \<and>
   p_status (probeOutcome (env0\<lparr>final_call := repo_fails 55000000\<rparr>) service0) = StatusAlive \<and>
   broadcast (fst (performHealthcheck (env0\<lparr>final_call := repo_fails 55000000\<rparr>) service0 sched0)) =
     [\<lparr>UServiceID = 1, UStatus = StatusChecking, UTimestamp = 1000000\<rparr>]"
proof -
  have st: "p_status (probeOutcome (env0\<lparr>final_call := repo_fails 55000000\<rparr>) service0) = StatusAlive"
    by (simp add: probeOutcome_def runProbe_def performHTTPHealthcheck_def Let_def env0_def net0_def
        service0_def ret_def determineStatus_def fallbackStatus_def)
  have b: "broadcast (fst (performHealthcheck (env0\<lparr>final_call := repo_fails 55000000\<rparr>) service0 sched0)) =
     [\<lparr>UServiceID = 1, UStatus = StatusChecking, UTimestamp = 1000000\<rparr>]"
    unfolding performHealthcheck_state
    by (simp add: broadcast_updateServiceStatus broadcast_before_final env0_def repo_fails_def
        repo_ok_def sched0_def service0_def broadcast_cap_def)
  show ?thesis using st b by (simp add: env0_def repo_fails_def)
qed

text \<open>
  Claim C1, amended. A failure to append the healthcheck result is logged only: the table
  of results stays as it was, one line "Error saving healthcheck result" is logged, and the
  runner goes on to the final update (a successful append adds the row and logs nothing).
  Whether or not the append failed, when the final update of the latest status succeeds and
  the channel has room at that moment, the terminal status update is sent to the channel,
  after whatever the checking update left there. When the final update of the latest
  status fails, the failure is logged and no terminal update is sent.
\<close>

theorem terminal_update_published:
  "(let st1 = updateServiceStatus (checking_call e) (ID service) StatusChecking st;
        fin = fst (performHealthcheck e service st);
        outcome = probeOutcome e service;
        final_lines =
          (case call_err (final_call e) of
             Some err' \<Rightarrow> [''Error updating service status: '' @ err']
           | None \<Rightarrow> if length (broadcast st1) < broadcast_cap then []
                     else [''Broadcast channel full, dropping update''])
    in (call_err (final_call e) = None \<and> length (broadcast st1) < broadcast_cap \<longrightarrow>
          broadcast fin =
            broadcast st1 @
            [\<lparr>UServiceID = ID service, UStatus = p_status outcome,
              UTimestamp = call_now (final_call e)\<rparr>]) \<and>
       (call_err (final_call e) = Some err \<longrightarrow>
          broadcast fin = broadcast st1 \<and>
          last (logs fin) = ''Error updating service status: '' @ err) \<and>
       (call_err (create_call e) = Some cerr \<longrightarrow>
          results_tbl fin = results_tbl st \<and>
          logs fin = logs st1 @ [''Error saving healthcheck result: '' @ cerr] @ final_lines) \<and>
       (call_err (create_call e) = None \<longrightarrow>
          results_tbl fin =
            results_tbl st @
            [(case p_err outcome of
                Some perr \<Rightarrow> (p_result outcome)\<lparr>Status := p_status outcome, Error := perr\<rparr>
              | None \<Rightarrow> (p_result outcome)\<lparr>Status := p_status outcome\<rparr>)
             \<lparr>CheckedAt := call_db_now (create_call e)\<rparr>] \<and>
          logs fin = logs st1 @ final_lines))"
proof -
  let ?st1 = "updateServiceStatus (checking_call e) (ID service) StatusChecking st"
  let ?fin = "fst (performHealthcheck e service st)"
  let ?lines = "(case call_err (final_call e) of
             Some err' \<Rightarrow> [''Error updating service status: '' @ err']
           | None \<Rightarrow> if length (broadcast ?st1) < broadcast_cap then []
                     else [''Broadcast channel full, dropping update''])"
  have a: "call_err (final_call e) = None \<and> length (broadcast ?st1) < broadcast_cap \<longrightarrow>
          broadcast ?fin = broadcast ?st1 @
            [\<lparr>UServiceID = ID service, UStatus = p_status (probeOutcome e service),
              UTimestamp = call_now (final_call e)\<rparr>]"
    unfolding performHealthcheck_state
    by (simp add: broadcast_updateServiceStatus [of "final_call e"] broadcast_before_final)
  have b: "call_err (final_call e) = Some err \<longrightarrow>
          broadcast ?fin = broadcast ?st1 \<and>
          last (logs ?fin) = ''Error updating service status: '' @ err"
    unfolding performHealthcheck_state
    by (simp add: broadcast_updateServiceStatus [of "final_call e"]
        logs_updateServiceStatus [of "final_call e"] broadcast_before_final)
  have c: "call_err (create_call e) = Some cerr \<longrightarrow>
          results_tbl ?fin = results_tbl st \<and>
          logs ?fin = logs ?st1 @ [''Error saving healthcheck result: '' @ cerr] @ ?lines"
    unfolding performHealthcheck_state
    by (simp add: logs_updateServiceStatus [of "final_call e"] split: option.splits)
  have d: "call_err (create_call e) = None \<longrightarrow>
          results_tbl ?fin =
            results_tbl st @
            [(case p_err (probeOutcome e service) of
                Some perr \<Rightarrow> (p_result (probeOutcome e service))
                               \<lparr>Status := p_status (probeOutcome e service), Error := perr\<rparr>
              | None \<Rightarrow> (p_result (probeOutcome e service))
                           \<lparr>Status := p_status (probeOutcome e service)\<rparr>)
             \<lparr>CheckedAt := call_db_now (create_call e)\<rparr>] \<and>
          logs ?fin = logs ?st1 @ ?lines"
    unfolding performHealthcheck_state
    by (simp add: logs_updateServiceStatus [of "final_call e"] split: option.splits)
  from a b c d show ?thesis unfolding Let_def by blast
qed

theorem terminal_update_published_witness:
  "broadcast (fst (performHealthcheck (env0\<lparr>create_call := repo_fails 54000000\<rparr>) service0 sched0)) =
     [\<lparr>UServiceID = 1, UStatus = StatusChecking, UTimestamp = 1000000\<rparr>,
      \<lparr>UServiceID = 1, UStatus = StatusAlive, UTimestamp = 55000000\<rparr>] \<and>
   results_tbl (fst (performHealthcheck (env0\<lparr>create_call := repo_fails 54000000\<rparr>) service0 sched0)) = [] \<and>
   logs (fst (performHealthcheck (env0\<lparr>create_call := repo_fails 54000000\<rparr>) service0 sched0)) =
     [''Error saving healthcheck result: connection refused''] \<and>
   last (logs (fst (performHealthcheck (env0\<lparr>final_call := repo_fails 55000000\<rparr>) service0 sched0))) =
     ''Error updating service status: connection refused'' \<and>
   map ResponseTime
     (results_tbl (fst (performHealthcheck (env0\<lparr>final_call := repo_fails 55000000\<rparr>) service0 sched0))) = [50]"
proof -
  let ?e1 = "env0\<lparr>create_call := repo_fails 54000000\<rparr>"
  let ?e2 = "env0\<lparr>final_call := repo_fails 55000000\<rparr>"
  have n: "probe_net ?e1 = net0" "probe_net ?e2 = net0"
    by (simp_all add: env0_calls)
  have i: "ID service0 = 1" "results_tbl sched0 = []" "Suc 0 < broadcast_cap"
    by (simp_all add: service0_def sched0_def broadcast_cap_def)
  note t1 = terminal_update_published [of ?e1 service0 sched0 "''connection refused''" "''connection refused''",
      unfolded Let_def]
  note t2 = terminal_update_published [of ?e2 service0 sched0 "''connection refused''" "''connection refused''",
      unfolded Let_def]
  from t1 have "broadcast (fst (performHealthcheck ?e1 service0 sched0)) =
     [\<lparr>UServiceID = 1, UStatus = StatusChecking, UTimestamp = 1000000\<rparr>,
      \<lparr>UServiceID = 1, UStatus = StatusAlive, UTimestamp = 55000000\<rparr>]"
    by (simp add: env0_calls repo_call_fields checking0 outcome0 [OF n(1)] i)
  moreover from t1 have "results_tbl (fst (performHealthcheck ?e1 service0 sched0)) = [] \<and>
     logs (fst (performHealthcheck ?e1 service0 sched0)) =
       [''Error saving healthcheck result: connection refused'']"
    by (simp add: env0_calls repo_call_fields checking0 i)
  moreover from t2 have "last (logs (fst (performHealthcheck ?e2 service0 sched0))) =
     ''Error updating service status: connection refused''"
    by (simp add: env0_calls repo_call_fields)
  moreover from t2 have "map ResponseTime (results_tbl (fst (performHealthcheck ?e2 service0 sched0))) = [50]"
    by (simp add: env0_calls repo_call_fields i response0 [OF n(2)])
  ultimately show ?thesis by blast
qed

section \<open>Scheduler: dispatch does not look at probes in flight\<close>

lemma count_list_dispatch:
  "count_list (map ID (filter P services)) i = length (filter (\<lambda>s. ID s = i \<and> P s) services)"
  by (induction services) auto

lemma busy_service_dispatched:
  assumes "i \<in> set (inflight st)" and "s \<in> set services" and "ID s = i" and "shouldCheck now s"
  shows "1 < count_list (inflight (tick now (Inr services) st)) i"
proof -
  from assms(2-4) have "s \<in> set (filter (\<lambda>s. ID s = i \<and> shouldCheck now s) services)" by simp
  then have "filter (\<lambda>s. ID s = i \<and> shouldCheck now s) services \<noteq> []"
    by (metis empty_iff empty_set)
  then have f: "Suc 0 \<le> length (filter (\<lambda>s. ID s = i \<and> shouldCheck now s) services)"
    by (simp add: Suc_le_eq)
  have "count_list (inflight st) i \<noteq> 0"
    using assms(1) count_list_0_iff [of "inflight st" i] by simp
  then have c: "Suc 0 \<le> count_list (inflight st) i" by simp
  have "count_list (inflight (tick now (Inr services) st)) i =
          count_list (inflight st) i + length (filter (\<lambda>s. ID s = i \<and> shouldCheck now s) services)"
    by (simp add: tick_def count_list_dispatch)
  with f c show ?thesis by simp
qed

text \<open>
  Claim C4, as stated, fails: nothing guards a service. The first tick starts a probe of
  service 1 (timeout 30 s, polling every 5 s), whose checking update stamps
  \<^verbatim>\<open>last_checked\<close>; the probe has not returned when the tick at 10 s reads the service again,
  finds the interval elapsed and starts a second probe of the same service.
\<close>

theorem overlapping_probes_counterexample:
  "inflight (scheduleHealthchecks
      [Tick 0 (Inr [service0\<lparr>PollingInterval := 5, RequestTimeout := 30\<rparr>]),
       Tick 10000000000 (Inr [service0\<lparr>PollingInterval := 5, RequestTimeout := 30,
                                      CurrentStatus := StatusChecking, LastChecked := Some 1000000\<rparr>])]
      sched0) = [1, 1]"
  by (simp add: tick_def shouldCheck_def service0_def sched0_def seconds_def wrap64_def since_def sat64_def)

text \<open>
  Claim C4, amended. A tick whose read of the store succeeds starts one probe for every
  entry of the snapshot for which \<open>shouldCheck\<close> holds, whether or not probes of that
  service are in flight: the number of probes in flight of a service grows by the number of
  its entries that are due. There is no guard per service and no service is skipped for
  being busy; probes of one service overlap whenever its polling interval elapses before
  the running probe returns.
\<close>

theorem tick_dispatches_busy_services:
  "count_list (inflight (tick now (Inr services) st)) i =
     count_list (inflight st) i + length (filter (\<lambda>s. ID s = i \<and> shouldCheck now s) services) \<and>
   (i \<in> set (inflight st) \<and> s \<in> set services \<and> ID s = i \<and> shouldCheck now s \<longrightarrow>
      1 < count_list (inflight (tick now (Inr services) st)) i)"
proof -
  have "count_list (inflight (tick now (Inr services) st)) i =
     count_list (inflight st) i + length (filter (\<lambda>s. ID s = i \<and> shouldCheck now s) services)"
    by (simp add: tick_def count_list_dispatch)
  with busy_service_dispatched [of i st s services now] show ?thesis by blast
qed

theorem tick_dispatches_busy_services_witness:
  "count_list (inflight (tick 10000000000
      (Inr [service0\<lparr>PollingInterval := 5, LastChecked := Some 1000000\<rparr>])
      (sched0\<lparr>inflight := [1]\<rparr>))) 1 = 2"
  using tick_dispatches_busy_services [of 10000000000
      "[service0\<lparr>PollingInterval := 5, LastChecked := Some 1000000\<rparr>]" "sched0\<lparr>inflight := [1]\<rparr>" 1
      "service0\<lparr>PollingInterval := 5, LastChecked := Some 1000000\<rparr>"]
  by (simp add: shouldCheck_def service0_def sched0_def seconds_def wrap64_def since_def sat64_def)

section \<open>Response time of a failed probe\<close>

text \<open>
  Claim C5 at a failing input: a TCP probe whose dial times out after 5000 ms. Every probe
  function returns at the error before its \<^verbatim>\<open>result.ResponseTime = ...\<close> line, so the row
  keeps the value \<open>newResult\<close> computed before the probe was called: the 2 ms the checking
  update took.
\<close>

theorem failed_probe_latency:
  "map ResponseTime (results_tbl (fst (performHealthcheck
      (env0\<lparr>probe_net := net0\<lparr>io_err := dial_fails, probe_end := 5003000000\<rparr>\<rparr>)
      (service0\<lparr>HealthcheckMethod := ''TCP''\<rparr>) sched0))) = [2] \<and>
   milliseconds (since (probe_end (net0\<lparr>io_err := dial_fails, probe_end := 5003000000\<rparr>))
                       (probe_start (net0\<lparr>io_err := dial_fails, probe_end := 5003000000\<rparr>))) = 5000"
  by (simp add: performHealthcheck_def probeOutcome_def newResult_def runProbe_def
      performTCPHealthcheck_def Let_def env0_def net0_def dial_fails_def service0_def ret_def
      repo_ok_def sched0_def updateServiceStatus_def UpdateServiceStatus_def
      CreateHealthcheckResult_def broadcast_cap_def milliseconds_def tdiv_def since_def sat64_def)

section \<open>DNS probe\<close>

text \<open>
  Claim C7 at two failing inputs: the query types AAAA and SOA, which the form of the
  front end offers, have no case in \<open>performDNSHealthcheck\<close>; the probe resolves nothing
  and answers dead, "unsupported DNS query type".
\<close>

theorem dns_aaaa_soa_unsupported:
  "performDNSHealthcheck n (service0\<lparr>HealthcheckMethod := ''DNS'', DNSQueryType := ''AAAA''\<rparr>) r =
     ret StatusDead (Some ''unsupported DNS query type: AAAA'') r [] \<and>
   performDNSHealthcheck n (service0\<lparr>HealthcheckMethod := ''DNS'', DNSQueryType := ''SOA''\<rparr>) r =
     ret StatusDead (Some ''unsupported DNS query type: SOA'') r []"
  by (simp add: performDNSHealthcheck_def Let_def service0_def)

section \<open>ICMP probe\<close>

lemma seconds_int_seconds:
  assumes "- 9223372036 \<le> n" and "n \<le> 9223372036"
  shows "seconds_int (seconds n) = n"
proof -
  have "\<bar>n\<bar> < 2 ^ 53" using assms by simp
  then have "seconds_int (n * 1000000000) = n" by (rule seconds_int_whole)
  then show ?thesis using assms by (simp add: seconds_exact)
qed

text \<open>
  Claim C6, as stated, fails above 10: a configured count of 50 packets is passed to ping
  as it is.
\<close>

theorem icmp_count_unclamped_counterexample:
  "pingCommand (service0\<lparr>HealthcheckMethod := ''ICMP'', ICMPPacketCount := 50\<rparr>) =
     [''ping'', ''-c'', ''50'', ''-W'', ''5'', ''h'']"
  using seconds_int_seconds [of 5]
  by (simp add: pingCommand_def icmpPacketCount_def service0_def fmt_d_def digit_char_def)

text \<open>
  Claim C6, amended. The ICMP probe runs the ping utility once, with the configured packet
  count when that is at least 1 and with 3 otherwise (no upper bound is applied), and with
  a wait of the request timeout in seconds (for every timeout whose nanoseconds fit a
  \<^verbatim>\<open>time.Duration\<close>); it answers dead exactly when the command fails or its output contains
  "0 received", and alive otherwise.
\<close>

theorem icmp_probe:
  "p_trace (performICMPHealthcheck n s r) = [ExecCommand (pingCommand s)] \<and>
   pingCommand s =
     [''ping'', ''-c'', fmt_d (if 1 \<le> ICMPPacketCount s then ICMPPacketCount s else 3),
      ''-W'', fmt_d (seconds_int (seconds (RequestTimeout s))), Host s] \<and>
   (- 9223372036 \<le> RequestTimeout s \<and> RequestTimeout s \<le> 9223372036 \<longrightarrow>
      seconds_int (seconds (RequestTimeout s)) = RequestTimeout s) \<and>
   p_status (performICMPHealthcheck n s r) =
     (case io_text n (ExecCommand (pingCommand s)) of
        Inl err \<Rightarrow> StatusDead
      | Inr out \<Rightarrow> if contains out ''0 received'' then StatusDead else StatusAlive)"
proof -
  have c: "icmpPacketCount s = (if 1 \<le> ICMPPacketCount s then ICMPPacketCount s else 3)"
    by (simp add: icmpPacketCount_def)
  have t: "p_trace (performICMPHealthcheck n s r) = [ExecCommand (pingCommand s)]"
    by (simp add: performICMPHealthcheck_def Let_def ret_def alive_def split: sum.splits)
  have st: "p_status (performICMPHealthcheck n s r) =
     (case io_text n (ExecCommand (pingCommand s)) of
        Inl err \<Rightarrow> StatusDead
      | Inr out \<Rightarrow> if contains out ''0 received'' then StatusDead else StatusAlive)"
    by (simp add: performICMPHealthcheck_def Let_def ret_def alive_def split: sum.splits)
  have p: "pingCommand s =
     [''ping'', ''-c'', fmt_d (if 1 \<le> ICMPPacketCount s then ICMPPacketCount s else 3),
      ''-W'', fmt_d (seconds_int (seconds (RequestTimeout s))), Host s]"
    unfolding pingCommand_def c ..
  from t st p seconds_int_seconds [of "RequestTimeout s"] show ?thesis by blast
qed

theorem icmp_probe_witness:
  "pingCommand (service0\<lparr>HealthcheckMethod := ''ICMP'', ICMPPacketCount := 0\<rparr>) =
     [''ping'', ''-c'', ''3'', ''-W'', ''5'', ''h''] \<and>
   p_status (performICMPHealthcheck
       (net0\<lparr>io_text := (\<lambda>_. Inr ''3 packets transmitted, 0 received, 100% packet loss'')\<rparr>)
       (service0\<lparr>HealthcheckMethod := ''ICMP'', ICMPPacketCount := 0\<rparr>) (newResult env0 service0)) = StatusDead"
  using icmp_probe [of "net0\<lparr>io_text := (\<lambda>_. Inr ''3 packets transmitted, 0 received, 100% packet loss'')\<rparr>"
      "service0\<lparr>HealthcheckMethod := ''ICMP'', ICMPPacketCount := 0\<rparr>" "newResult env0 service0"]
  by (simp add: service0_def net0_def fmt_d_def digit_char_def has_prefix_def)

section \<open>Invalid configuration\<close>

lemma runProbe_default:
  assumes "HealthcheckMethod s \<notin> set recognizedMethods"
  shows "runProbe n s r =
     ret StatusDead (Some (''unsupported health check method: '' @ HealthcheckMethod s))
       (r\<lparr>Error := ''unsupported health check method: '' @ HealthcheckMethod s\<rparr>) []"
  using assms by (simp add: recognizedMethods_def runProbe_def Let_def)

lemma udp_no_send_data:
  assumes "UDPSendData s = []"
  shows "performUDPHealthcheck n s r =
     (case io_err n (Dial ''udp'' (Host s @ '':'' @ fmt_d (Port s)) (seconds (RequestTimeout s))) of
        Some err \<Rightarrow> ret StatusDead (Some err) r
          [Dial ''udp'' (Host s @ '':'' @ fmt_d (Port s)) (seconds (RequestTimeout s))]
      | None \<Rightarrow>
         (case io_err n (SetReadDeadline (seconds (RequestTimeout s))) of
            Some err \<Rightarrow> ret StatusDead (Some err) r
              [Dial ''udp'' (Host s @ '':'' @ fmt_d (Port s)) (seconds (RequestTimeout s)),
               SetReadDeadline (seconds (RequestTimeout s))]
          | None \<Rightarrow> ret StatusDead (Some ''UDP send data is required'') r
              [Dial ''udp'' (Host s @ '':'' @ fmt_d (Port s)) (seconds (RequestTimeout s)),
               SetReadDeadline (seconds (RequestTimeout s))]))"
  using assms by (simp add: performUDPHealthcheck_def Let_def split: option.splits)

text \<open>
  Claim C8, as stated, fails for UDP: the probe dials before it looks at the send data, so
  with empty send data and a host that cannot be dialled the error is the dial's.
\<close>

theorem udp_dial_before_validation_counterexample:
  "performUDPHealthcheck (net0\<lparr>io_err := dial_fails\<rparr>) (service0\<lparr>HealthcheckMethod := ''UDP''\<rparr>) (newResult env0 service0) =
     ret StatusDead (Some ''i/o timeout'') (newResult env0 service0) [Dial ''udp'' ''h:80'' 5000000000]"
  by (simp add: performUDPHealthcheck_def Let_def net0_def dial_fails_def service0_def
      fmt_d_def digit_char_def seconds_def wrap64_def)

text \<open>
  Claim C8, amended. A method the switch does not know gives dead with the error
  "unsupported health check method: " and the method, and the dispatch performs no probe
  operation at all. A UDP probe with empty send data first dials the socket and then sets
  its read deadline; if the dial fails, or else if the deadline fails, the probe is dead
  with the error of that operation; only when both have succeeded is the send data looked
  at, and the probe is dead with "UDP send data is required", having written and read no
  datagram.
\<close>

theorem invalid_config_dead:
  "(HealthcheckMethod s \<notin> set recognizedMethods \<longrightarrow>
      runProbe n s r =
        ret StatusDead (Some (''unsupported health check method: '' @ HealthcheckMethod s))
          (r\<lparr>Error := ''unsupported health check method: '' @ HealthcheckMethod s\<rparr>) [] \<and>
      snd (performHealthcheck e s st) = []) \<and>
   (UDPSendData s = [] \<longrightarrow>
      performUDPHealthcheck n s r =
        (let dial = Dial ''udp'' (Host s @ '':'' @ fmt_d (Port s)) (seconds (RequestTimeout s));
             deadline = SetReadDeadline (seconds (RequestTimeout s))
         in case io_err n dial of
              Some err \<Rightarrow> ret StatusDead (Some err) r [dial]
            | None \<Rightarrow>
                (case io_err n deadline of
                   Some err \<Rightarrow> ret StatusDead (Some err) r [dial, deadline]
                 | None \<Rightarrow> ret StatusDead (Some ''UDP send data is required'') r [dial, deadline])))"
proof -
  have a: "HealthcheckMethod s \<notin> set recognizedMethods \<Longrightarrow> snd (performHealthcheck e s st) = []"
    by (simp add: performHealthcheck_def Let_def probeOutcome_def runProbe_default ret_def)
  from a runProbe_default [of s n r] udp_no_send_data [of s n r]
  show ?thesis unfolding Let_def by blast
qed

theorem invalid_config_dead_witness:
  "runProbe net0 (service0\<lparr>HealthcheckMethod := ''WSS''\<rparr>) (newResult env0 service0) =
     ret StatusDead (Some ''unsupported health check method: WSS'')
       ((newResult env0 service0)\<lparr>Error := ''unsupported health check method: WSS''\<rparr>) [] \<and>
   performUDPHealthcheck net0 (service0\<lparr>HealthcheckMethod := ''UDP''\<rparr>) (newResult env0 service0) =
     ret StatusDead (Some ''UDP send data is required'') (newResult env0 service0)
       [Dial ''udp'' ''h:80'' 5000000000, SetReadDeadline 5000000000]"
  using invalid_config_dead [of "service0\<lparr>HealthcheckMethod := ''WSS''\<rparr>" net0 "newResult env0 service0"]
        invalid_config_dead [of "service0\<lparr>HealthcheckMethod := ''UDP''\<rparr>" net0 "newResult env0 service0"]
  by (simp add: service0_def net0_def recognizedMethods_def fmt_d_def digit_char_def seconds_def wrap64_def)

end
